theory Spec2Isabelle
  imports Main
begin

text \<open>
  The monitoring engine of the DMV appointment monitor: the target-date generator and the
  slot extraction of \<open>server/services/appointmentChecker.ts\<close>, the checker's loop over
  the locations, the email and SMS services, the notification dispatcher and the
  monitoring service (scheduler), over the in-memory storage. Definitions come first, in
  the order of the source; the statements about them follow.
\<close>

section \<open>Target dates: \<open>AppointmentChecker.getNextWorkingDays\<close>\<close>

text \<open>
  A JavaScript \<open>Date\<close> is used by \<open>getNextWorkingDays\<close> only through \<open>getDay\<close>,
  \<open>getDate\<close>/\<open>setDate\<close> (advance by one calendar day) and copying. It is modelled by the
  number of its local calendar day, counted from 1970-01-01 (a Thursday); the time of day
  is carried along unchanged by the source and is left out.
\<close>

type_synonym Date = int

definition getDay :: "Date \<Rightarrow> nat" where
  \<comment> \<open>0 = Sunday, ..., 6 = Saturday\<close>
  "getDay d = nat ((d + 4) mod 7)"

definition weekendRank :: "Date \<Rightarrow> nat" where
  \<comment> \<open>how many days the loop skips from \<open>d\<close> when only business days count\<close>
  "weekendRank d = (if getDay d = 6 then 2 else if getDay d = 0 then 1 else 0)"

text \<open>
  The \<open>while (days.length < count)\<close> loop: \<open>days\<close> is the array built so far, \<open>day\<close> the
  running date. \<open>count\<close> is a JavaScript number, an integer here. The loop ends: a
  skipped day is a Saturday or a Sunday, and at most two of them come in a row.
\<close>

function getNextWorkingDays_loop :: "int \<Rightarrow> bool \<Rightarrow> Date list \<Rightarrow> Date \<Rightarrow> Date list" where
  "getNextWorkingDays_loop count businessDaysOnly days day =
     (if int (length days) < count then
        (if \<not> businessDaysOnly \<or> (getDay day \<noteq> 0 \<and> getDay day \<noteq> 6)
         then getNextWorkingDays_loop count businessDaysOnly (days @ [day]) (day + 1)
         else getNextWorkingDays_loop count businessDaysOnly days (day + 1))
      else days)"
  by pat_completeness auto
termination
proof (relation "measure (\<lambda>(count, b, days, day).
          3 * nat (count - int (length days)) + weekendRank day)")
  show "wf (measure (\<lambda>(count, b, days, day).
          3 * nat (count - int (length days)) + weekendRank day))"
    by simp
next
  fix count :: int and businessDaysOnly :: bool and days :: "Date list" and day :: Date
  assume less: "int (length days) < count"
  have "weekendRank (day + 1) \<le> 2" by (simp add: weekendRank_def)
  moreover from less
  have "nat (count - int (length (days @ [day]))) + 1 = nat (count - int (length days))"
    by simp
  ultimately
  have "3 * nat (count - int (length (days @ [day]))) + weekendRank (day + 1)
      < 3 * nat (count - int (length days)) + weekendRank day"
    by linarith
  then show "((count, businessDaysOnly, days @ [day], day + 1), (count, businessDaysOnly, days, day))
      \<in> measure (\<lambda>(count, b, days, day).
          3 * nat (count - int (length days)) + weekendRank day)"
    by simp
next
  fix count :: int and businessDaysOnly :: bool and days :: "Date list" and day :: Date
  assume "int (length days) < count"
    and "\<not> (\<not> businessDaysOnly \<or> getDay day \<noteq> 0 \<and> getDay day \<noteq> 6)"
  then have "getDay day = 0 \<or> getDay day = 6" by blast
  then have weekend: "(day + 4) mod 7 = 0 \<or> (day + 4) mod 7 = 6"
    by (auto simp: getDay_def)
  have "weekendRank (day + 1) < weekendRank day"
  proof (rule disjE [OF weekend])
    assume sunday: "(day + 4) mod 7 = 0"
    then have "(day + 1 + 4) mod 7 = 1" by presburger
    with sunday show ?thesis by (simp add: getDay_def weekendRank_def)
  next
    assume saturday: "(day + 4) mod 7 = 6"
    then have "(day + 1 + 4) mod 7 = 0" by presburger
    with saturday show ?thesis by (simp add: getDay_def weekendRank_def)
  qed
  then show "((count, businessDaysOnly, days, day + 1), (count, businessDaysOnly, days, day))
      \<in> measure (\<lambda>(count, b, days, day).
          3 * nat (count - int (length days)) + weekendRank day)"
    by simp
qed

declare getNextWorkingDays_loop.simps [simp del]

definition getNextWorkingDays :: "Date \<Rightarrow> int \<Rightarrow> bool \<Rightarrow> Date list" where
  \<comment> \<open>\<open>today = new Date()\<close>; \<open>days = []\<close>; \<open>day = new Date(today)\<close>\<close>
  "getNextWorkingDays today count businessDaysOnly =
     getNextWorkingDays_loop count businessDaysOnly [] today"

section \<open>JavaScript values and strings\<close>

text \<open>
  A thrown value is an \<open>Error\<close> with its message, or a value that is not an instance of
  \<open>Error\<close>. An \<open>async\<close> function that may reject returns \<open>js_error + 'a\<close>, \<open>Inl\<close> the
  rejection; the state it leaves behind is returned beside it, since a rejected call keeps
  the writes it made before it threw.
\<close>

datatype js_error = ErrorObj string | OtherThrown

fun errorMessage :: "js_error \<Rightarrow> string" where
  \<comment> \<open>\<open>error instanceof Error ? error.message : 'Unknown error'\<close>\<close>
  "errorMessage (ErrorObj m) = m"
| "errorMessage OtherThrown = ''Unknown error''"

text \<open>
  A JavaScript string is a sequence of UTF-16 code units. A \<open>char\<close> here stands for a code
  unit below 256, so a \<open>string\<close> is a text in the Latin-1 range; text with higher code units
  is outside the model. On this range the white space of \<open>String.prototype.trim\<close> and of
  the pattern class \<open>\s\<close> is tab, line feed, vertical tab, form feed, carriage return, space
  and the no-break space U+00A0, and \<open>toLowerCase\<close> maps A-Z and the accented capitals
  U+00C0-U+00DE (the multiplication sign U+00D7 apart).
\<close>

definition isSpace :: "char \<Rightarrow> bool" where
  "isSpace c =
     (c \<in> set [CHR 0x09, CHR 0x0A, CHR 0x0B, CHR 0x0C, CHR 0x0D, CHR 0x20, CHR 0xA0])"

definition trim :: "string \<Rightarrow> string" where
  "trim s = rev (dropWhile isSpace (rev (dropWhile isSpace s)))"

definition isDigit :: "char \<Rightarrow> bool" where
  "isDigit c = (c \<in> set ''0123456789'')"

definition upperCaseLetters :: string where
  "upperCaseLetters =
     ''ABCDEFGHIJKLMNOPQRSTUVWXYZ''
     @ [CHR 0xC0, CHR 0xC1, CHR 0xC2, CHR 0xC3, CHR 0xC4, CHR 0xC5, CHR 0xC6, CHR 0xC7,
        CHR 0xC8, CHR 0xC9, CHR 0xCA, CHR 0xCB, CHR 0xCC, CHR 0xCD, CHR 0xCE, CHR 0xCF,
        CHR 0xD0, CHR 0xD1, CHR 0xD2, CHR 0xD3, CHR 0xD4, CHR 0xD5, CHR 0xD6,
        CHR 0xD8, CHR 0xD9, CHR 0xDA, CHR 0xDB, CHR 0xDC, CHR 0xDD, CHR 0xDE]"

definition lowerCaseLetters :: string where
  "lowerCaseLetters =
     ''abcdefghijklmnopqrstuvwxyz''
     @ [CHR 0xE0, CHR 0xE1, CHR 0xE2, CHR 0xE3, CHR 0xE4, CHR 0xE5, CHR 0xE6, CHR 0xE7,
        CHR 0xE8, CHR 0xE9, CHR 0xEA, CHR 0xEB, CHR 0xEC, CHR 0xED, CHR 0xEE, CHR 0xEF,
        CHR 0xF0, CHR 0xF1, CHR 0xF2, CHR 0xF3, CHR 0xF4, CHR 0xF5, CHR 0xF6,
        CHR 0xF8, CHR 0xF9, CHR 0xFA, CHR 0xFB, CHR 0xFC, CHR 0xFD, CHR 0xFE]"

definition toLowerChar :: "char \<Rightarrow> char" where
  "toLowerChar c =
     (case map_of (zip upperCaseLetters lowerCaseLetters) c of
        Some l \<Rightarrow> l
      | None \<Rightarrow> c)"

definition toLowerCase :: "string \<Rightarrow> string" where
  "toLowerCase s = map toLowerChar s"

fun startsWith :: "string \<Rightarrow> string \<Rightarrow> bool" where
  "startsWith s [] = True"
| "startsWith [] (p # ps) = False"
| "startsWith (c # cs) (p # ps) = (c = p \<and> startsWith cs ps)"

fun str_includes :: "string \<Rightarrow> string \<Rightarrow> bool" where
  \<comment> \<open>\<open>String.prototype.includes\<close>\<close>
  "str_includes [] p = (p = [])"
| "str_includes (c # cs) p = (startsWith (c # cs) p \<or> str_includes cs p)"

fun join :: "string \<Rightarrow> string list \<Rightarrow> string" where
  \<comment> \<open>\<open>Array.prototype.join\<close>\<close>
  "join sep [] = []"
| "join sep [x] = x"
| "join sep (x # y # ys) = x @ sep @ join sep (y # ys)"

fun show_nat :: "nat \<Rightarrow> string" where
  \<comment> \<open>a non-negative integer inside a template literal\<close>
  "show_nat n =
     (if n < 10 then [''0123456789'' ! n]
      else show_nat (n div 10) @ [''0123456789'' ! (n mod 10)])"

declare show_nat.simps [simp del]

definition show_int :: "int \<Rightarrow> string" where
  "show_int i = (if i < 0 then ''-'' @ show_nat (nat (- i)) else show_nat (nat i))"

text \<open>
  The counters of the statistics row are JavaScript numbers with integer values. An
  integer below \<open>2 ^ 53 = 9007199254740992\<close> in magnitude is a number; a larger one is rounded to 53
  significant bits, to the nearest with ties to the even significand. \<open>ulp m\<close> is the
  distance between neighbouring numbers at magnitude \<open>m\<close>, \<open>toNumber\<close> the rounding and
  \<open>jsPlus\<close> the \<open>+\<close> of the language on such values.
\<close>

function ulp :: "int \<Rightarrow> int" where
  "ulp m = (if m < 9007199254740992 then 1 else 2 * ulp (m div 2))"
  by pat_completeness auto
termination
  by (relation "measure nat") auto

declare ulp.simps [simp del]

definition toNumber :: "int \<Rightarrow> int" where
  "toNumber n =
     (let m = \<bar>n\<bar>; u = ulp m; q = m div u; r = m mod u;
          nearest = (if 2 * r < u then q * u
                     else if u < 2 * r then (q + 1) * u
                     else if even q then q * u else (q + 1) * u)
      in if n < 0 then - nearest else nearest)"

definition jsPlus :: "int \<Rightarrow> int \<Rightarrow> int" where
  "jsPlus a b = toNumber (a + b)"

definition plural :: "nat \<Rightarrow> string" where
  \<comment> \<open>\<open>n > 1 ? 's' : ''\<close>\<close>
  "plural n = (if n > 1 then ''s'' else '''')"

definition truthy :: "string option \<Rightarrow> bool" where
  \<comment> \<open>a string field that may be \<open>null\<close>/\<open>undefined\<close>: truthy when present and not empty\<close>
  "truthy v = (case v of None \<Rightarrow> False | Some s \<Rightarrow> s \<noteq> [])"

definition orElse :: "string option \<Rightarrow> string \<Rightarrow> string" where
  \<comment> \<open>\<open>a || b\<close> on strings\<close>
  "orElse v d = (case v of None \<Rightarrow> d | Some s \<Rightarrow> if s \<noteq> [] then s else d)"

subsection \<open>The two time patterns\<close>

text \<open>
  \<open>/\d{1,2}:\d{2}\s*(AM|PM)/i\<close> and \<open>/\d{1,2}(AM|PM)/i\<close>, tested with \<open>pattern.test(text)\<close>:
  the pattern may match at any position of the text.
\<close>

definition isAmPm :: "string \<Rightarrow> bool" where
  \<comment> \<open>\<open>(AM|PM)\<close> at the head of the string, ignoring case\<close>
  "isAmPm s =
     (case s of
        a # m # _ \<Rightarrow> (toLowerChar a = CHR ''a'' \<or> toLowerChar a = CHR ''p'') \<and> toLowerChar m = CHR ''m''
      | _ \<Rightarrow> False)"

definition digits12 :: "(string \<Rightarrow> bool) \<Rightarrow> string \<Rightarrow> bool" where
  \<comment> \<open>\<open>\d{1,2}\<close> at the head of the string, the rest matched by \<open>k\<close>\<close>
  "digits12 k s =
     (case s of
        [] \<Rightarrow> False
      | d # r \<Rightarrow> isDigit d \<and> ((case r of [] \<Rightarrow> False | d' # r' \<Rightarrow> isDigit d' \<and> k r') \<or> k r))"

definition colonTimeAt :: "string \<Rightarrow> bool" where
  "colonTimeAt s =
     digits12 (\<lambda>r. case r of
                      c # d1 # d2 # r' \<Rightarrow>
                        c = CHR '':'' \<and> isDigit d1 \<and> isDigit d2 \<and> isAmPm (dropWhile isSpace r')
                    | _ \<Rightarrow> False) s"

definition shortTimeAt :: "string \<Rightarrow> bool" where
  "shortTimeAt s = digits12 isAmPm s"

fun anywhere :: "(string \<Rightarrow> bool) \<Rightarrow> string \<Rightarrow> bool" where
  "anywhere P [] = P []"
| "anywhere P (c # cs) = (P (c # cs) \<or> anywhere P cs)"

definition hasTime :: "string \<Rightarrow> bool" where
  \<comment> \<open>\<open>timePatterns.some(pattern => pattern.test(text))\<close>\<close>
  "hasTime text = (anywhere colonTimeAt text \<or> anywhere shortTimeAt text)"

section \<open>Data model\<close>

text \<open>
  The rows of \<open>shared/schema\<close> as the services read them. The generated \<open>id\<close> and the
  \<open>createdAt\<close>/\<open>updatedAt\<close> stamps are left out, and a nullable column that the code reads
  as a plain value is one (\<open>enabled\<close>: \<open>null\<close> is filtered like \<open>false\<close>).
\<close>

record DmvLocation =
  loc_id :: string
  name :: string
  loc_url :: string
  loc_type :: string
  enabled :: bool

record AppointmentSlot =
  location :: string
  date :: string
  time :: string
  url :: string

text \<open>
  \<open>EmailConfig\<close> with the SMS fields that \<open>SmsService\<close> reads from it; each of them may be
  missing.
\<close>

record EmailConfig =
  notificationEmail :: string
  smtpServer :: string
  smtpPort :: int
  smtpUsername :: "string option"
  smtpPassword :: "string option"
  smsEnabled :: "bool option"
  twilioAccountSid :: "string option"
  twilioAuthToken :: "string option"
  twilioPhoneNumber :: "string option"
  phoneNumber :: "string option"

record MonitoringSettings =
  checkInterval :: int
  daysAhead :: int
  businessDaysOnly :: bool
  isEnabled :: bool

text \<open>
  The \<open>metadata\<close> column holds \<open>JSON.stringify\<close> of one of four objects; the object is kept
  instead of its text.
\<close>

datatype metadata =
    MetaLocation string string \<comment> \<open>\<open>{ locationId, url }\<close>\<close>
  | MetaSlots "AppointmentSlot list" \<comment> \<open>\<open>slots\<close>\<close>
  | MetaNotification "AppointmentSlot list" "string list" int \<comment> \<open>\<open>{ slots, methods, timestamp }\<close>\<close>
  | MetaError js_error \<comment> \<open>\<open>{ error }\<close>\<close>

record ActivityLog =
  log_type :: string
  title :: string
  description :: "string option"
  action :: "string option"
  metadata :: "metadata option"

record MonitoringStats =
  totalChecks :: int
  appointmentsFound :: int
  emailsSent :: int
  lastCheckTime :: "int option"
  uptime :: int
  smsSent :: "int option" \<comment> \<open>written by \<open>SmsService\<close> only; absent until then\<close>

subsection \<open>\<open>MemStorage\<close>\<close>

text \<open>
  \<open>dmvLocations\<close> is kept in creation order, the order \<open>getDmvLocations\<close> sorts into;
  \<open>activityLogs\<close> in insertion order. No method of \<open>MemStorage\<close> throws.
\<close>

record MemStorage =
  dmvLocations :: "DmvLocation list"
  emailConfig :: "EmailConfig option"
  monitoringSettings :: "MonitoringSettings option"
  activityLogs :: "ActivityLog list"
  monitoringStats :: "MonitoringStats option"

definition getDmvLocations :: "MemStorage \<Rightarrow> DmvLocation list" where
  "getDmvLocations s = dmvLocations s"

definition getEmailConfig :: "MemStorage \<Rightarrow> EmailConfig option" where
  "getEmailConfig s = emailConfig s"

definition getMonitoringSettings :: "MemStorage \<Rightarrow> MonitoringSettings option" where
  "getMonitoringSettings s = monitoringSettings s"

definition getMonitoringStats :: "MemStorage \<Rightarrow> MonitoringStats option" where
  "getMonitoringStats s = monitoringStats s"

definition upsertMonitoringStats :: "MonitoringStats \<Rightarrow> MemStorage \<Rightarrow> MemStorage" where
  \<comment> \<open>every caller passes \<open>{...stats, field: v}\<close>, a whole row\<close>
  "upsertMonitoringStats stats s = s\<lparr>monitoringStats := Some stats\<rparr>"

definition createActivityLog :: "ActivityLog \<Rightarrow> MemStorage \<Rightarrow> MemStorage" where
  "createActivityLog entry s = s\<lparr>activityLogs := activityLogs s @ [entry]\<rparr>"

section \<open>The process and what is outside it\<close>

text \<open>
  \<open>MonitoringService\<close> holds a reference to its cron task; the tasks made by
  \<open>cron.schedule\<close> live in \<open>cronTasks\<close>, in creation order, and a reference is an index
  into that list.
\<close>

record ScheduledTask =
  cronExpression :: string
  started :: bool

record MonitoringService =
  task :: "nat option"
  isRunning :: bool
  startTime :: "int option"

text \<open>
  A message handed to a transport: the sender, the recipient and the slots its text is
  rendered from (\<open>None\<close> for the fixed test message). The rendering is not modelled.
\<close>

record message =
  msg_from :: string
  msg_to :: string
  msg_slots :: "AppointmentSlot list option"

datatype call = EmailSend "AppointmentSlot list" | SmsSend "AppointmentSlot list"

text \<open>
  \<open>world\<close> is the state of the process: the storage singleton, the monitoring service, the
  checker's \<open>browser\<close> field (\<open>True\<close> once launched), the messages the SMTP server and
  Twilio accepted, and \<open>attempts\<close>, the calls of \<open>emailService.sendAppointmentNotification\<close>
  and \<open>smsService.sendAppointmentNotification\<close> in the order they were entered.
\<close>

record world =
  storage :: MemStorage
  monitoringService :: MonitoringService
  cronTasks :: "ScheduledTask list"
  browser :: bool
  sentMail :: "message list"
  sentSms :: "message list"
  attempts :: "call list"

definition logActivity :: "ActivityLog \<Rightarrow> world \<Rightarrow> world" where
  \<comment> \<open>\<open>await storage.createActivityLog(entry)\<close>\<close>
  "logActivity entry w = w\<lparr>storage := createActivityLog entry (storage w)\<rparr>"

text \<open>
  The elements a selector query returns, with what the page callbacks read of them.
\<close>

record element =
  classList :: "string list"
  hasDisabledAttr :: bool \<comment> \<open>\<open>el.hasAttribute('disabled')\<close>\<close>
  textContent :: string
  dataDate :: "string option" \<comment> \<open>\<open>el.getAttribute('data-date')\<close>\<close>
  dataTime :: "string option" \<comment> \<open>\<open>el.getAttribute('data-time')\<close>\<close>

text \<open>
  A loaded page answers the two \<open>$$eval\<close> queries: the elements matching the
  "available" selectors and those matching the calendar selectors, \<open>None\<close> when the query
  rejects.
\<close>

record page_content =
  availableEls :: "element list option"
  calendarEls :: "element list option"

text \<open>
  \<open>env\<close> is everything the code asks of its surroundings: the clock (\<open>Date.now()\<close>,
  \<open>new Date()\<close> as a calendar day and as the date part of \<open>toISOString()\<close>), the date
  formatting of the runtime, the browser (\<open>puppeteer.launch\<close>, \<open>newPage\<close>, navigation to a
  location followed by the settle delay, \<open>page.close\<close>), \<open>cron.schedule\<close>, which rejects an
  expression it finds invalid, and the two transports. \<open>None\<close> in an \<open>option\<close> outcome
  means the call resolved. \<open>goto\<close> stands for \<open>page.goto\<close> and the \<open>page.waitForDelay\<close> that
  follows it, the two awaits of a visit that can reject: it is \<open>Inl\<close> when either rejects
  or throws, as the second does on a page object that has no method of that name.
\<close>

record env =
  clockNow :: int
  clockToday :: Date
  clockTodayISO :: string
  fmtWeekdayMonthDay :: "Date \<Rightarrow> string"
  fmtMonthDay :: "Date \<Rightarrow> string"
  fmtNumeric :: "Date \<Rightarrow> string"
  getMonth :: "Date \<Rightarrow> nat"
  getDate :: "Date \<Rightarrow> nat"
  toISODate :: "Date \<Rightarrow> string"
  launch :: "js_error option"
  newPage :: "js_error option"
  goto :: "DmvLocation \<Rightarrow> js_error + page_content"
  closePage :: "js_error option"
  cronSchedule :: "string \<Rightarrow> js_error option"
  sendMail :: "EmailConfig \<Rightarrow> message \<Rightarrow> js_error option"
  twilioCreate :: "EmailConfig \<Rightarrow> message \<Rightarrow> js_error option"

section \<open>\<open>AppointmentChecker\<close>\<close>

subsection \<open>Slot extraction\<close>

definition dateFormats :: "env \<Rightarrow> Date \<Rightarrow> string list" where
  "dateFormats e targetDate =
     [fmtWeekdayMonthDay e targetDate,
      fmtMonthDay e targetDate,
      fmtNumeric e targetDate,
      show_nat (getMonth e targetDate + 1) @ ''/'' @ show_nat (getDate e targetDate),
      show_nat (getDate e targetDate)]"

definition textSlots :: "env \<Rightarrow> DmvLocation \<Rightarrow> Date list \<Rightarrow> element list \<Rightarrow> AppointmentSlot list" where
  \<comment> \<open>the text-pattern loop over \<open>slots\<close> and \<open>targetDates\<close>\<close>
  "textSlots e loc targetDates els =
     [\<lparr>location = name loc, date = toISODate e targetDate, time = text, url = loc_url loc\<rparr>.
        text \<leftarrow> map (\<lambda>el. trim (textContent el)) els,
        targetDate \<leftarrow> targetDates,
        (\<exists>format \<in> set (dateFormats e targetDate). str_includes text format)
          \<and> (hasTime text \<or> str_includes (toLowerCase text) ''available'')]"

record calendarSlot =
  cs_text :: string
  cs_date :: string
  cs_time :: string

definition isAvailable :: "element \<Rightarrow> bool" where
  "isAvailable el =
     (''disabled'' \<notin> set (classList el) \<and> ''unavailable'' \<notin> set (classList el)
      \<and> \<not> hasDisabledAttr el)"

definition calendarEval :: "element list \<Rightarrow> calendarSlot list" where
  \<comment> \<open>the callback of the second \<open>$$eval\<close>: \<open>filter\<close>, then \<open>map\<close>\<close>
  "calendarEval els =
     map (\<lambda>el. \<lparr>cs_text = trim (textContent el),
                cs_date = (case dataDate el of None \<Rightarrow> '''' | Some d \<Rightarrow> d),
                cs_time = (case dataTime el of None \<Rightarrow> '''' | Some t \<Rightarrow> t)\<rparr>)
         (filter (\<lambda>el. isAvailable el \<and> trim (textContent el) \<noteq> []) els)"

definition calendarSlots :: "env \<Rightarrow> DmvLocation \<Rightarrow> calendarSlot list \<Rightarrow> AppointmentSlot list" where
  \<comment> \<open>\<open>for (const slot of calendarSlots) if (slot.date || slot.time) push\<close>\<close>
  "calendarSlots e loc cs =
     [\<lparr>location = name loc,
       date = (if cs_date s \<noteq> [] then cs_date s else clockTodayISO e),
       time = (if cs_time s \<noteq> [] then cs_time s else cs_text s),
       url = loc_url loc\<rparr>.
        s \<leftarrow> cs, cs_date s \<noteq> [] \<or> cs_time s \<noteq> []]"

definition orEmpty :: "'a list option \<Rightarrow> 'a list" where
  \<comment> \<open>\<open>.catch(() => [])\<close>\<close>
  "orEmpty r = (case r of None \<Rightarrow> [] | Some xs \<Rightarrow> xs)"

definition extractSlots :: "env \<Rightarrow> DmvLocation \<Rightarrow> Date list \<Rightarrow> page_content \<Rightarrow> AppointmentSlot list" where
  "extractSlots e loc targetDates pg =
     textSlots e loc targetDates (orEmpty (availableEls pg))
     @ calendarSlots e loc (calendarEval (orEmpty (calendarEls pg)))"

subsection \<open>\<open>checkAppointments\<close>\<close>

definition locationErrorLog :: "DmvLocation \<Rightarrow> js_error \<Rightarrow> ActivityLog" where
  "locationErrorLog loc err =
     \<lparr>log_type = ''error'',
      title = ''Error checking '' @ name loc,
      description = Some (''Failed to check appointments: '' @ errorMessage err),
      action = None,
      metadata = Some (MetaLocation (loc_id loc) (loc_url loc))\<rparr>"

definition checkLocation ::
  "env \<Rightarrow> Date list \<Rightarrow> DmvLocation \<Rightarrow> AppointmentSlot list \<Rightarrow> world \<Rightarrow> AppointmentSlot list \<times> world" where
  \<comment> \<open>one turn of \<open>for (const location of enabledLocations)\<close>, with its \<open>try\<close>/\<open>catch\<close>\<close>
  "checkLocation e targetDates loc availableSlots w =
     (case goto e loc of
        Inr pg \<Rightarrow> (availableSlots @ extractSlots e loc targetDates pg, w)
      | Inl err \<Rightarrow> (availableSlots, logActivity (locationErrorLog loc err) w))"

primrec checkLocations ::
  "env \<Rightarrow> Date list \<Rightarrow> DmvLocation list \<Rightarrow> AppointmentSlot list \<Rightarrow> world \<Rightarrow> AppointmentSlot list \<times> world" where
  "checkLocations e targetDates [] availableSlots w = (availableSlots, w)"
| "checkLocations e targetDates (loc # locs) availableSlots w =
     (case checkLocation e targetDates loc availableSlots w of
        (availableSlots', w') \<Rightarrow> checkLocations e targetDates locs availableSlots' w')"

definition initialize :: "env \<Rightarrow> world \<Rightarrow> (js_error + unit) \<times> world" where
  "initialize e w =
     (if browser w then (Inr (), w)
      else case launch e of
             Some err \<Rightarrow> (Inl err, w)
           | None \<Rightarrow> (Inr (), w\<lparr>browser := True\<rparr>))"

definition checkAppointments :: "env \<Rightarrow> world \<Rightarrow> (js_error + AppointmentSlot list) \<times> world" where
  "checkAppointments e w =
     (case initialize e w of
        (Inl err, w1) \<Rightarrow> (Inl err, w1)
      | (Inr _, w1) \<Rightarrow>
          (let locations = getDmvLocations (storage w1);
               enabledLocations = filter enabled locations
           in (case getMonitoringSettings (storage w1) of
                 None \<Rightarrow> (Inl (ErrorObj ''Monitoring settings not found''), w1)
               | Some settings \<Rightarrow>
                   (let targetDates =
                          getNextWorkingDays (clockToday e) (daysAhead settings)
                            (businessDaysOnly settings)
                    in (case newPage e of
                          Some err \<Rightarrow> (Inl err, w1)
                        | None \<Rightarrow>
                            (case checkLocations e targetDates enabledLocations [] w1 of
                               (availableSlots, w2) \<Rightarrow>
                                 (case closePage e of
                                    Some err \<Rightarrow> (Inl err, w2)
                                  | None \<Rightarrow> (Inr availableSlots, w2))))))))"

section \<open>\<open>EmailService\<close> and \<open>SmsService\<close>\<close>

definition mailOptions :: "EmailConfig \<Rightarrow> AppointmentSlot list \<Rightarrow> message" where
  "mailOptions cfg slots =
     \<lparr>msg_from = orElse (smtpUsername cfg) (notificationEmail cfg),
      msg_to = notificationEmail cfg,
      msg_slots = Some slots\<rparr>"

definition emailService_sendAppointmentNotification ::
  "env \<Rightarrow> AppointmentSlot list \<Rightarrow> world \<Rightarrow> (js_error + unit) \<times> world" where
  "emailService_sendAppointmentNotification e slots w0 =
     (let w = w0\<lparr>attempts := attempts w0 @ [EmailSend slots]\<rparr>
      in (case getEmailConfig (storage w) of
            None \<Rightarrow> (Inl (ErrorObj ''Email configuration not found''), w)
          | Some cfg \<Rightarrow>
              (case sendMail e cfg (mailOptions cfg slots) of
                 Some err \<Rightarrow> (Inl err, w)
               | None \<Rightarrow>
                   (let w1 = w\<lparr>sentMail := sentMail w @ [mailOptions cfg slots]\<rparr>
                    in (Inr (),
                        (case getMonitoringStats (storage w1) of
                           None \<Rightarrow> w1
                         | Some stats \<Rightarrow>
                             w1\<lparr>storage :=
                                  upsertMonitoringStats
                                    (stats\<lparr>emailsSent := jsPlus (emailsSent stats) 1\<rparr>)
                                    (storage w1)\<rparr>))))))"

definition smsUnconfigured :: "EmailConfig option \<Rightarrow> bool" where
  \<comment> \<open>the guard shared by the two operations of \<open>SmsService\<close>\<close>
  "smsUnconfigured c =
     (case c of
        None \<Rightarrow> True
      | Some cfg \<Rightarrow>
          smsEnabled cfg \<noteq> Some True \<or> \<not> truthy (twilioAccountSid cfg)
          \<or> \<not> truthy (twilioAuthToken cfg) \<or> \<not> truthy (twilioPhoneNumber cfg)
          \<or> \<not> truthy (phoneNumber cfg))"

definition smsMessage :: "EmailConfig \<Rightarrow> AppointmentSlot list option \<Rightarrow> message" where
  \<comment> \<open>\<open>{ body, from: twilioPhoneNumber, to: phoneNumber }\<close>, both present past the guard\<close>
  "smsMessage cfg body =
     \<lparr>msg_from = orElse (twilioPhoneNumber cfg) '''',
      msg_to = orElse (phoneNumber cfg) '''',
      msg_slots = body\<rparr>"

definition smsService_sendAppointmentNotification ::
  "env \<Rightarrow> AppointmentSlot list \<Rightarrow> world \<Rightarrow> (js_error + unit) \<times> world" where
  "smsService_sendAppointmentNotification e slots w0 =
     (let w = w0\<lparr>attempts := attempts w0 @ [SmsSend slots]\<rparr>
      in if smsUnconfigured (getEmailConfig (storage w)) then (Inr (), w)
         else case getEmailConfig (storage w) of
                None \<Rightarrow> (Inr (), w)
              | Some cfg \<Rightarrow>
                  (case twilioCreate e cfg (smsMessage cfg (Some slots)) of
                     Some err \<Rightarrow> (Inl err, w)
                   | None \<Rightarrow>
                       let w1 = w\<lparr>sentSms := sentSms w @ [smsMessage cfg (Some slots)]\<rparr>
                       in (Inr (),
                           case getMonitoringStats (storage w1) of
                             None \<Rightarrow> w1
                           | Some stats \<Rightarrow>
                               w1\<lparr>storage :=
                                    upsertMonitoringStats
                                      (stats\<lparr>smsSent :=
                                          Some (jsPlus (case smsSent stats of None \<Rightarrow> 0
                                                        | Some n \<Rightarrow> n) 1)\<rparr>)
                                      (storage w1)\<rparr>)))"

definition sendTestSms :: "env \<Rightarrow> world \<Rightarrow> (js_error + unit) \<times> world" where
  "sendTestSms e w =
     (if smsUnconfigured (getEmailConfig (storage w))
      then (Inl (ErrorObj ''SMS configuration incomplete or disabled''), w)
      else case getEmailConfig (storage w) of
             None \<Rightarrow> (Inl (ErrorObj ''SMS configuration incomplete or disabled''), w)
           | Some cfg \<Rightarrow>
               (case twilioCreate e cfg (smsMessage cfg None) of
                  Some err \<Rightarrow> (Inl err, w)
                | None \<Rightarrow> (Inr (), w\<lparr>sentSms := sentSms w @ [smsMessage cfg None]\<rparr>)))"

section \<open>\<open>NotificationService\<close>\<close>

definition notificationLog :: "env \<Rightarrow> AppointmentSlot list \<Rightarrow> string list \<Rightarrow> ActivityLog" where
  "notificationLog e slots results =
     \<lparr>log_type = ''notification_sent'',
      title = ''Notifications Sent'',
      description =
        Some (''Sent '' @ join '' and '' results @ '' notifications for ''
              @ show_nat (length slots) @ '' appointment'' @ plural (length slots)),
      action = Some (''Notified via: '' @ join '', '' results),
      metadata = Some (MetaNotification slots results (clockNow e))\<rparr>"

definition notificationService_sendAppointmentNotification ::
  "env \<Rightarrow> AppointmentSlot list \<Rightarrow> world \<Rightarrow> (js_error + unit) \<times> world" where
  "notificationService_sendAppointmentNotification e slots w =
     (case emailService_sendAppointmentNotification e slots w of
        (r1, w1) \<Rightarrow>
          let results1 = (case r1 of Inr _ \<Rightarrow> [''email''] | Inl _ \<Rightarrow> [])
          in case smsService_sendAppointmentNotification e slots w1 of
               (r2, w2) \<Rightarrow>
                 let results = results1 @ (case r2 of Inr _ \<Rightarrow> [''SMS''] | Inl _ \<Rightarrow> [])
                 in if length results > 0
                    then (Inr (), logActivity (notificationLog e slots results) w2)
                    else (Inr (), w2))"

section \<open>\<open>MonitoringService\<close>\<close>

definition stopTask :: "nat \<Rightarrow> ScheduledTask list \<Rightarrow> ScheduledTask list" where
  \<comment> \<open>\<open>this.task.stop()\<close> on the task a reference points to\<close>
  "stopTask i ts = (if i < length ts then ts[i := (ts ! i)\<lparr>started := False\<rparr>] else ts)"

definition startedLog :: "int \<Rightarrow> ActivityLog" where
  "startedLog intervalMinutes =
     \<lparr>log_type = ''monitoring_started'',
      title = ''Monitoring Started'',
      description =
        Some (''Started monitoring with '' @ show_int intervalMinutes @ '' minute intervals''),
      action = None,
      metadata = None\<rparr>"

definition startMonitoring :: "env \<Rightarrow> world \<Rightarrow> (js_error + unit) \<times> world" where
  "startMonitoring e w =
     (if isRunning (monitoringService w) then (Inr (), w)
      else case getMonitoringSettings (storage w) of
             None \<Rightarrow> (Inl (ErrorObj ''Monitoring is not enabled''), w)
           | Some settings \<Rightarrow>
               if \<not> isEnabled settings then (Inl (ErrorObj ''Monitoring is not enabled''), w)
               else
                 let ts = (case task (monitoringService w) of
                             Some i \<Rightarrow> stopTask i (cronTasks w)
                           | None \<Rightarrow> cronTasks w);
                     intervalMinutes = checkInterval settings div 60;
                     cronExpression = ''*/'' @ show_int intervalMinutes @ '' * * * *''
                 in (case cronSchedule e cronExpression of
                       Some err \<Rightarrow> (Inl err, w\<lparr>cronTasks := ts\<rparr>)
                     | None \<Rightarrow>
                         (Inr (),
                          logActivity (startedLog intervalMinutes)
                            (w\<lparr>cronTasks :=
                                 ts @ [\<lparr>cronExpression = cronExpression, started = True\<rparr>],
                               monitoringService :=
                                 \<lparr>task = Some (length ts), isRunning = True,
                                  startTime = Some (clockNow e)\<rparr>\<rparr>))))"

definition stoppedLog :: ActivityLog where
  "stoppedLog =
     \<lparr>log_type = ''monitoring_stopped'',
      title = ''Monitoring Stopped'',
      description = Some ''Appointment monitoring has been stopped'',
      action = None,
      metadata = None\<rparr>"

definition stopMonitoring :: "world \<Rightarrow> (js_error + unit) \<times> world" where
  "stopMonitoring w =
     (let w1 = (case task (monitoringService w) of
                  Some i \<Rightarrow>
                    w\<lparr>cronTasks := stopTask i (cronTasks w),
                      monitoringService := (monitoringService w)\<lparr>task := None\<rparr>\<rparr>
                | None \<Rightarrow> w);
          w2 = w1\<lparr>monitoringService := (monitoringService w1)\<lparr>isRunning := False\<rparr>\<rparr>
      in (Inr (), logActivity stoppedLog w2))"

definition checkFailedLog :: "js_error \<Rightarrow> ActivityLog" where
  "checkFailedLog err =
     \<lparr>log_type = ''error'',
      title = ''Check Failed'',
      description = Some (''Appointment check failed: '' @ errorMessage err),
      action = None,
      metadata = Some (MetaError err)\<rparr>"

definition appointmentFoundLog :: "AppointmentSlot list \<Rightarrow> ActivityLog" where
  "appointmentFoundLog slots =
     \<lparr>log_type = ''appointment_found'',
      title = ''Appointment Found!'',
      description =
        Some (''Found '' @ show_nat (length slots) @ '' available slot'' @ plural (length slots)
              @ '': '' @ join '', '' (map (\<lambda>s. location s @ '' - '' @ time s) slots)),
      action = Some ''Email notification sent'',
      metadata = Some (MetaSlots slots)\<rparr>"

definition checkCompletedLog :: "nat \<Rightarrow> ActivityLog" where
  "checkCompletedLog enabledCount =
     \<lparr>log_type = ''check_completed'',
      title = ''Routine Check Completed'',
      description =
        Some (''Checked '' @ show_nat enabledCount @ '' locations - No appointments available''),
      action = None,
      metadata = None\<rparr>"

definition checkedStats ::
  "env \<Rightarrow> AppointmentSlot list \<Rightarrow> MonitoringStats \<Rightarrow> world \<Rightarrow> MonitoringStats" where
  \<comment> \<open>the row \<open>performCheck\<close> writes, built from the row it has read; the two times are
      time values, far below \<open>2 ^ 53\<close>, where the difference and its division are exact\<close>
  "checkedStats e slots stats w =
     stats\<lparr>totalChecks := jsPlus (totalChecks stats) 1,
           appointmentsFound := jsPlus (appointmentsFound stats) (int (length slots)),
           lastCheckTime := Some (clockNow e),
           uptime := (case startTime (monitoringService w) of
                        Some t \<Rightarrow> (clockNow e - t) div 60000
                      | None \<Rightarrow> uptime stats)\<rparr>"

definition updateStats :: "env \<Rightarrow> AppointmentSlot list \<Rightarrow> world \<Rightarrow> world" where
  \<comment> \<open>the \<open>// Update stats\<close> block of \<open>performCheck\<close>\<close>
  "updateStats e slots w =
     (case getMonitoringStats (storage w) of
        None \<Rightarrow> w
      | Some stats \<Rightarrow>
          w\<lparr>storage := upsertMonitoringStats (checkedStats e slots stats w) (storage w)\<rparr>)"

text \<open>
  \<open>performCheck\<close> is written in two parts: \<open>performCheck_resume\<close> is everything after
  \<open>await appointmentChecker.checkAppointments()\<close> has settled, the \<open>catch\<close> block included;
  \<open>performCheck\<close> runs the checker and then resumes.
\<close>

definition performCheck_resume ::
  "env \<Rightarrow> js_error + AppointmentSlot list \<Rightarrow> world \<Rightarrow> (js_error + unit) \<times> world" where
  "performCheck_resume e settled w =
     (case settled of
        Inl err \<Rightarrow> (Inr (), logActivity (checkFailedLog err) w)
      | Inr slots \<Rightarrow>
          let w1 = updateStats e slots w
          in if length slots > 0
             then (case emailService_sendAppointmentNotification e slots w1 of
                     (Inl err, w2) \<Rightarrow> (Inr (), logActivity (checkFailedLog err) w2)
                   | (Inr _, w2) \<Rightarrow> (Inr (), logActivity (appointmentFoundLog slots) w2))
             else
               let locations = getDmvLocations (storage w1);
                   enabledCount = length (filter enabled locations)
               in (Inr (), logActivity (checkCompletedLog enabledCount) w1))"

definition performCheck :: "env \<Rightarrow> world \<Rightarrow> (js_error + unit) \<times> world" where
  "performCheck e w =
     (case checkAppointments e w of (settled, w1) \<Rightarrow> performCheck_resume e settled w1)"

section \<open>Check cycles, one step at a time\<close>

text \<open>
  \<open>performCheck\<close> is an \<open>async\<close> function: a call runs until its first \<open>await\<close> and gives
  the thread back; each later stretch runs when the awaited promise has settled, up to
  the next \<open>await\<close>. Between two stretches of one call the stretches of other calls may
  run. A call of a storage method happens inside the stretch that makes it: a method of
  \<open>MemStorage\<close> reads or writes at once, and the \<open>await\<close> of its result only suspends.

  \<open>pc\<close> says where a suspended call of \<open>performCheck\<close> waits and what its local variables
  hold. The first eight points lie inside \<open>checkAppointments\<close>, the points
  \<open>ReadEmailConfig\<close> to \<open>EmailWroteStats\<close> inside
  \<open>emailService.sendAppointmentNotification\<close>. Stretches that touch nothing shared are
  joined to the one that follows them: the awaits of one location's visit (\<open>goto\<close>, the
  settle delay, the two queries) are one point, \<open>Visiting\<close>, and the way of a rejection to
  the \<open>catch\<close> block of \<open>performCheck\<close> is part of the stretch that raised it.
\<close>

datatype pc =
    Launching \<comment> \<open>\<open>await puppeteer.launch(...)\<close>, no browser yet\<close>
  | Initialized \<comment> \<open>\<open>await this.initialize()\<close>, the browser was there\<close>
  | GotLocations "DmvLocation list" \<comment> \<open>\<open>await storage.getDmvLocations()\<close>\<close>
  | GotSettings "DmvLocation list" "MonitoringSettings option"
      \<comment> \<open>\<open>await storage.getMonitoringSettings()\<close>, with \<open>enabledLocations\<close>\<close>
  | OpeningPage "DmvLocation list" "Date list" \<comment> \<open>\<open>await this.browser.newPage()\<close>\<close>
  | Visiting DmvLocation "DmvLocation list" "Date list" "AppointmentSlot list"
      \<comment> \<open>in the \<open>try\<close> block of a location; the locations still to come, \<open>availableSlots\<close>\<close>
  | LoggedLocation "DmvLocation list" "Date list" "AppointmentSlot list"
      \<comment> \<open>\<open>await storage.createActivityLog(...)\<close> in the \<open>catch\<close> block of a location\<close>
  | ClosingPage "AppointmentSlot list" \<comment> \<open>\<open>await page.close()\<close>\<close>
  | ReadStats "AppointmentSlot list" "MonitoringStats option"
      \<comment> \<open>\<open>await storage.getMonitoringStats()\<close> in \<open>performCheck\<close>\<close>
  | WroteStats "AppointmentSlot list" \<comment> \<open>\<open>await storage.upsertMonitoringStats(...)\<close>\<close>
  | CountedLocations "DmvLocation list" \<comment> \<open>\<open>await storage.getDmvLocations()\<close>, no slots\<close>
  | ReadEmailConfig "AppointmentSlot list" "EmailConfig option"
      \<comment> \<open>\<open>await storage.getEmailConfig()\<close>\<close>
  | SendingMail "AppointmentSlot list" EmailConfig \<comment> \<open>\<open>await transporter.sendMail(...)\<close>\<close>
  | EmailReadStats "AppointmentSlot list" "MonitoringStats option"
      \<comment> \<open>\<open>await storage.getMonitoringStats()\<close> in the email service\<close>
  | EmailWroteStats "AppointmentSlot list"
      \<comment> \<open>\<open>await storage.upsertMonitoringStats(...)\<close> in the email service\<close>
  | Logged \<comment> \<open>the last \<open>await storage.createActivityLog(...)\<close> of the cycle\<close>
  | Done \<comment> \<open>returned\<close>


text \<open>
  The first stretch: \<open>performCheck\<close> logs to the console, enters its \<open>try\<close> block and calls
  \<open>checkAppointments\<close>, which calls \<open>initialize\<close>, which looks at \<open>this.browser\<close> and
  calls \<open>puppeteer.launch\<close> if there is none. Nothing else is looked at before the call
  waits inside the checker.
\<close>

definition performCheck_begin :: "world \<Rightarrow> pc \<times> world" where
  "performCheck_begin w = (if browser w then (Initialized, w) else (Launching, w))"

definition failCheck :: "js_error \<Rightarrow> world \<Rightarrow> pc \<times> world" where
  \<comment> \<open>the \<open>catch\<close> block of \<open>performCheck\<close>\<close>
  "failCheck err w = (Logged, logActivity (checkFailedLog err) w)"

definition readLocations :: "world \<Rightarrow> pc \<times> world" where
  \<comment> \<open>after \<open>initialize\<close>: \<open>storage.getDmvLocations()\<close>\<close>
  "readLocations w = (GotLocations (getDmvLocations (storage w)), w)"

definition visitNext ::
  "DmvLocation list \<Rightarrow> Date list \<Rightarrow> AppointmentSlot list \<Rightarrow> world \<Rightarrow> pc \<times> world" where
  \<comment> \<open>the head of the \<open>for\<close> loop; after the last location, the \<open>finally\<close> block\<close>
  "visitNext locs targetDates availableSlots w =
     (case locs of
        [] \<Rightarrow> (ClosingPage availableSlots, w)
      | loc # rest \<Rightarrow> (Visiting loc rest targetDates availableSlots, w))"

definition readStats :: "AppointmentSlot list \<Rightarrow> world \<Rightarrow> pc \<times> world" where
  \<comment> \<open>the checker has returned: \<open>storage.getMonitoringStats()\<close>\<close>
  "readStats slots w = (ReadStats slots (getMonitoringStats (storage w)), w)"

definition notifyOrCount :: "AppointmentSlot list \<Rightarrow> world \<Rightarrow> pc \<times> world" where
  \<comment> \<open>\<open>if (slots.length > 0)\<close>: into the email service up to its first \<open>await\<close>, or the
      \<open>else\<close> branch up to its first\<close>
  "notifyOrCount slots w =
     (if length slots > 0
      then (let w1 = w\<lparr>attempts := attempts w @ [EmailSend slots]\<rparr>
            in (ReadEmailConfig slots (getEmailConfig (storage w1)), w1))
      else (CountedLocations (getDmvLocations (storage w)), w))"

definition logFound :: "AppointmentSlot list \<Rightarrow> world \<Rightarrow> pc \<times> world" where
  \<comment> \<open>the email service has returned: the \<open>appointment_found\<close> entry\<close>
  "logFound slots w = (Logged, logActivity (appointmentFoundLog slots) w)"

definition resume :: "env \<Rightarrow> pc \<Rightarrow> world \<Rightarrow> pc \<times> world" where
  \<comment> \<open>the stretch that runs when the promise a call waits for has settled\<close>
  "resume e p w =
     (case p of
        Launching \<Rightarrow>
          (case launch e of
             Some err \<Rightarrow> failCheck err w
           | None \<Rightarrow> readLocations (w\<lparr>browser := True\<rparr>))
      | Initialized \<Rightarrow> readLocations w
      | GotLocations locations \<Rightarrow>
          (GotSettings (filter enabled locations) (getMonitoringSettings (storage w)), w)
      | GotSettings enabledLocations st \<Rightarrow>
          (case st of
             None \<Rightarrow> failCheck (ErrorObj ''Monitoring settings not found'') w
           | Some settings \<Rightarrow>
               (OpeningPage enabledLocations
                  (getNextWorkingDays (clockToday e) (daysAhead settings)
                     (businessDaysOnly settings)), w))
      | OpeningPage enabledLocations targetDates \<Rightarrow>
          (case newPage e of
             Some err \<Rightarrow> failCheck err w
           | None \<Rightarrow> visitNext enabledLocations targetDates [] w)
      | Visiting loc rest targetDates availableSlots \<Rightarrow>
          (case goto e loc of
             Inr pg \<Rightarrow>
               visitNext rest targetDates (availableSlots @ extractSlots e loc targetDates pg) w
           | Inl err \<Rightarrow>
               (LoggedLocation rest targetDates availableSlots,
                logActivity (locationErrorLog loc err) w))
      | LoggedLocation rest targetDates availableSlots \<Rightarrow>
          visitNext rest targetDates availableSlots w
      | ClosingPage availableSlots \<Rightarrow>
          (case closePage e of
             Some err \<Rightarrow> failCheck err w
           | None \<Rightarrow> readStats availableSlots w)
      | ReadStats slots st \<Rightarrow>
          (case st of
             None \<Rightarrow> notifyOrCount slots w
           | Some stats \<Rightarrow>
               (WroteStats slots,
                w\<lparr>storage := upsertMonitoringStats (checkedStats e slots stats w) (storage w)\<rparr>))
      | WroteStats slots \<Rightarrow> notifyOrCount slots w
      | CountedLocations locations \<Rightarrow>
          (Logged, logActivity (checkCompletedLog (length (filter enabled locations))) w)
      | ReadEmailConfig slots c \<Rightarrow>
          (case c of
             None \<Rightarrow> failCheck (ErrorObj ''Email configuration not found'') w
           | Some cfg \<Rightarrow> (SendingMail slots cfg, w))
      | SendingMail slots cfg \<Rightarrow>
          (case sendMail e cfg (mailOptions cfg slots) of
             Some err \<Rightarrow> failCheck err w
           | None \<Rightarrow>
               (let w1 = w\<lparr>sentMail := sentMail w @ [mailOptions cfg slots]\<rparr>
                in (EmailReadStats slots (getMonitoringStats (storage w1)), w1)))
      | EmailReadStats slots st \<Rightarrow>
          (case st of
             None \<Rightarrow> logFound slots w
           | Some stats \<Rightarrow>
               (EmailWroteStats slots,
                w\<lparr>storage :=
                    upsertMonitoringStats (stats\<lparr>emailsSent := jsPlus (emailsSent stats) 1\<rparr>)
                      (storage w)\<rparr>))
      | EmailWroteStats slots \<Rightarrow> logFound slots w
      | Logged \<Rightarrow> (Done, w)
      | Done \<Rightarrow> (Done, w))"


text \<open>
  The process: the shared state and the calls of \<open>performCheck\<close> made so far, in the order
  they were made. Two things call \<open>performCheck\<close>: the cron callback, when the timer of
  the service's task fires, and the handler of \<open>POST /api/monitoring/check-now\<close>; each runs
  the first stretch at once. \<open>Resume i\<close> is the settling of the promise call \<open>i\<close> waits
  for. Any order of events is a run of the model; the runtime produces those in which
  a stretch waiting on storage follows before the next input or output completes.
\<close>

datatype event = Tick | CheckNow | Resume nat

record system =
  sys_world :: world
  cycles :: "pc list"

definition timerActive :: "world \<Rightarrow> bool" where
  "timerActive w =
     (case task (monitoringService w) of
        None \<Rightarrow> False
      | Some i \<Rightarrow> i < length (cronTasks w) \<and> started (cronTasks w ! i))"

definition beginCheck :: "system \<Rightarrow> system" where
  "beginCheck s =
     (case performCheck_begin (sys_world s) of
        (p, w) \<Rightarrow> \<lparr>sys_world = w, cycles = cycles s @ [p]\<rparr>)"

definition step :: "env \<Rightarrow> system \<Rightarrow> event \<Rightarrow> system" where
  "step e s ev =
     (case ev of
        Tick \<Rightarrow> if timerActive (sys_world s) then beginCheck s else s
      | CheckNow \<Rightarrow> beginCheck s
      | Resume i \<Rightarrow>
          if i < length (cycles s)
          then (case resume e (cycles s ! i) (sys_world s) of
                  (p, w) \<Rightarrow> \<lparr>sys_world = w, cycles = (cycles s)[i := p]\<rparr>)
          else s)"

definition run :: "env \<Rightarrow> system \<Rightarrow> event list \<Rightarrow> system" where
  "run e s evs = foldl (step e) s evs"


section \<open>Derived notions used in the statements\<close>

definition locationSlots :: "env \<Rightarrow> Date list \<Rightarrow> DmvLocation \<Rightarrow> AppointmentSlot list" where
  \<comment> \<open>what one location contributes to the result\<close>
  "locationSlots e targetDates loc =
     (case goto e loc of Inr pg \<Rightarrow> extractSlots e loc targetDates pg | Inl err \<Rightarrow> [])"

definition locationErrors :: "env \<Rightarrow> DmvLocation \<Rightarrow> ActivityLog list" where
  \<comment> \<open>what one location contributes to the activity log\<close>
  "locationErrors e loc =
     (case goto e loc of Inr pg \<Rightarrow> [] | Inl err \<Rightarrow> [locationErrorLog loc err])"

definition namesLocation :: "DmvLocation \<Rightarrow> ActivityLog \<Rightarrow> bool" where
  \<comment> \<open>an \<open>error\<close> entry written for this location: its name in the title, its id in the metadata\<close>
  "namesLocation loc entry =
     (log_type entry = ''error'' \<and> title entry = ''Error checking '' @ name loc
      \<and> metadata entry = Some (MetaLocation (loc_id loc) (loc_url loc)))"

definition logsSince :: "world \<Rightarrow> world \<Rightarrow> ActivityLog list" where
  \<comment> \<open>the entries appended between an earlier and a later state\<close>
  "logsSince w w' = drop (length (activityLogs (storage w))) (activityLogs (storage w'))"

definition ofType :: "string \<Rightarrow> ActivityLog list \<Rightarrow> ActivityLog list" where
  "ofType t entries = filter (\<lambda>entry. log_type entry = t) entries"

definition totalChecksOf :: "world \<Rightarrow> int option" where
  "totalChecksOf w = map_option totalChecks (monitoringStats (storage w))"

section \<open>Sample inputs\<close>

text \<open>
  \<open>initialStorage\<close> is \<open>MemStorage\<close> after its constructor (\<open>initializeDefaultData\<close>);
  \<open>initialWorld\<close> is the process before any request: no task, not running, no browser.
\<close>

definition initialStorage :: MemStorage where
  "initialStorage =
     \<lparr>dmvLocations =
        [\<lparr>loc_id = ''1'', name = ''Henderson DMV (All Services)'',
          loc_url = ''https://hendersondmv.waitwell.us/book/1026'',
          loc_type = ''All Services'', enabled = True\<rparr>,
         \<lparr>loc_id = ''2'', name = ''Henderson DMV (DL)'',
          loc_url = ''https://hendersondmv.waitwell.us/book/994'',
          loc_type = ''Driver's License Only'', enabled = True\<rparr>,
         \<lparr>loc_id = ''3'', name = ''West Flamingo DMV (All Services)'',
          loc_url = ''https://westflamingodmv.waitwell.us/book/1260'',
          loc_type = ''All Services'', enabled = True\<rparr>,
         \<lparr>loc_id = ''4'', name = ''West Flamingo DMV (DL)'',
          loc_url = ''https://westflamingodmv.waitwell.us/book/1228'',
          loc_type = ''Driver's License Only'', enabled = True\<rparr>,
         \<lparr>loc_id = ''5'', name = ''North Decatur DMV (All Services)'',
          loc_url = ''https://northdecaturdmv.waitwell.us/book/1143'',
          loc_type = ''All Services'', enabled = False\<rparr>,
         \<lparr>loc_id = ''6'', name = ''North Decatur DMV (DL)'',
          loc_url = ''https://northdecaturdmv.waitwell.us/book/1111'',
          loc_type = ''Driver's License Only'', enabled = False\<rparr>],
      emailConfig = None,
      monitoringSettings =
        Some \<lparr>checkInterval = 300, daysAhead = 5, businessDaysOnly = True, isEnabled = False\<rparr>,
      activityLogs = [],
      monitoringStats =
        Some \<lparr>totalChecks = 0, appointmentsFound = 0, emailsSent = 0, lastCheckTime = None,
              uptime = 0, smsSent = None\<rparr>\<rparr>"

definition initialWorld :: world where
  "initialWorld =
     \<lparr>storage = initialStorage,
      monitoringService = \<lparr>task = None, isRunning = False, startTime = None\<rparr>,
      cronTasks = [],
      browser = False,
      sentMail = [],
      sentSms = [],
      attempts = []\<rparr>"

text \<open>
  A running process: monitoring enabled in the settings and started at time 0, an email
  configuration saved.
\<close>

definition sampleConfig :: EmailConfig where
  "sampleConfig =
     \<lparr>notificationEmail = ''user@example.org'', smtpServer = ''smtp.example.org'',
      smtpPort = 587, smtpUsername = None, smtpPassword = None, smsEnabled = None,
      twilioAccountSid = None, twilioAuthToken = None, twilioPhoneNumber = None,
      phoneNumber = None\<rparr>"

definition runningWorld :: world where
  "runningWorld =
     initialWorld
       \<lparr>storage := initialStorage
          \<lparr>emailConfig := Some sampleConfig,
           monitoringSettings :=
             Some \<lparr>checkInterval = 300, daysAhead = 5, businessDaysOnly = True, isEnabled = True\<rparr>\<rparr>,
        monitoringService := \<lparr>task = Some 0, isRunning = True, startTime = Some 0\<rparr>,
        cronTasks := [\<lparr>cronExpression = ''*/5 * * * *'', started = True\<rparr>]\<rparr>"

text \<open>
  Sample pages: one bookable calendar cell that carries a \<open>data-date\<close>, and one that
  carries no data attribute.
\<close>

definition datedCell :: element where
  "datedCell =
     \<lparr>classList = [''calendar-cell''], hasDisabledAttr = False, textContent = ''9:00 AM'',
      dataDate = Some ''2025-01-07'', dataTime = None\<rparr>"

definition plainCell :: element where
  "plainCell =
     \<lparr>classList = [''calendar-cell''], hasDisabledAttr = False, textContent = ''9:00 AM'',
      dataDate = None, dataTime = None\<rparr>"

definition datedPage :: page_content where
  "datedPage = \<lparr>availableEls = Some [], calendarEls = Some [datedCell]\<rparr>"

text \<open>
  \<open>sampleEnv\<close>: Monday 6 January 2025 (day 20094), 10 minutes after time 0; the
  formatting functions give the runtime's answers for that day. The browser starts,
  the first Henderson page times out, every other page is \<open>datedPage\<close>, every cron
  expression is accepted, and both transports accept what they are given. \<open>launchFails\<close>
  is the same with a browser that does not start, \<open>closeFails\<close> the same with a page
  whose \<open>close\<close> rejects.
\<close>

definition sampleEnv :: env where
  "sampleEnv =
     \<lparr>clockNow = 600000, clockToday = 20094, clockTodayISO = ''2025-01-06'',
      fmtWeekdayMonthDay = (\<lambda>d. ''Mon, Jan 6''), fmtMonthDay = (\<lambda>d. ''Jan 6''),
      fmtNumeric = (\<lambda>d. ''1/6''), getMonth = (\<lambda>d. 0), getDate = (\<lambda>d. 6),
      toISODate = (\<lambda>d. ''2025-01-06''),
      launch = None, newPage = None,
      goto = (\<lambda>loc. if loc_id loc = ''1''
                      then Inl (ErrorObj ''Navigation timeout of 30000 ms exceeded'')
                      else Inr datedPage),
      closePage = None,
      cronSchedule = (\<lambda>expression. None),
      sendMail = (\<lambda>cfg m. None),
      twilioCreate = (\<lambda>cfg m. None)\<rparr>"

definition launchFails :: env where
  "launchFails = sampleEnv\<lparr>launch := Some (ErrorObj ''Failed to launch the browser process'')\<rparr>"

definition closeFails :: env where
  "closeFails = sampleEnv\<lparr>closePage := Some (ErrorObj ''Protocol error: Target closed'')\<rparr>"

definition sampleSlot :: AppointmentSlot where
  "sampleSlot =
     \<lparr>location = ''Henderson DMV (DL)'', date = ''2025-01-07'', time = ''9:00 AM'',
      url = ''https://hendersondmv.waitwell.us/book/994''\<rparr>"

definition sampleFound :: "AppointmentSlot list" where
  \<comment> \<open>what the three enabled locations with \<open>datedPage\<close> yield\<close>
  "sampleFound =
     [\<lparr>location = ''Henderson DMV (DL)'', date = ''2025-01-07'', time = ''9:00 AM'',
       url = ''https://hendersondmv.waitwell.us/book/994''\<rparr>,
      \<lparr>location = ''West Flamingo DMV (All Services)'', date = ''2025-01-07'',
       time = ''9:00 AM'', url = ''https://westflamingodmv.waitwell.us/book/1260''\<rparr>,
      \<lparr>location = ''West Flamingo DMV (DL)'', date = ''2025-01-07'', time = ''9:00 AM'',
       url = ''https://westflamingodmv.waitwell.us/book/1228''\<rparr>]"




section \<open>Numbers and white space\<close>

lemma ulp_small: "m < 9007199254740992 \<Longrightarrow> ulp m = 1"
  by (subst ulp.simps) simp



lemma jsPlus_at_the_limit: "jsPlus 9007199254740992 1 = 9007199254740992"
proof -
  have "ulp 9007199254740993 = 2 * ulp 4503599627370496"
    by (subst ulp.simps) simp
  then have two: "ulp \<bar>9007199254740993\<bar> = 2"
    by (simp add: ulp_small)
  have "toNumber 9007199254740993 = 9007199254740992"
    unfolding toNumber_def Let_def two by simp
  then show ?thesis
    by (simp add: jsPlus_def)
qed

lemma trim_no_break_space:
  "trim ([CHR 0xA0] @ ''9:00 AM'' @ [CHR 0xA0, CHR 0x20]) = ''9:00 AM''"
  "trim [CHR 0xA0] = []"
  by (simp_all add: trim_def isSpace_def)

section \<open>The target dates\<close>

lemma getNextWorkingDays_loop_done:
  "\<not> int (length days) < count \<Longrightarrow> getNextWorkingDays_loop count b days day = days"
  by (subst getNextWorkingDays_loop.simps) simp

lemma getNextWorkingDays_loop_push:
  "int (length days) < count \<Longrightarrow> \<not> b \<or> (getDay day \<noteq> 0 \<and> getDay day \<noteq> 6) \<Longrightarrow>
   getNextWorkingDays_loop count b days day
     = getNextWorkingDays_loop count b (days @ [day]) (day + 1)"
  by (subst getNextWorkingDays_loop.simps) (simp only: if_True)

lemma getNextWorkingDays_loop_skip:
  "int (length days) < count \<Longrightarrow> \<not> (\<not> b \<or> (getDay day \<noteq> 0 \<and> getDay day \<noteq> 6)) \<Longrightarrow>
   getNextWorkingDays_loop count b days day = getNextWorkingDays_loop count b days (day + 1)"
  by (subst getNextWorkingDays_loop.simps) (simp only: if_True if_False)

lemma getNextWorkingDays_loop_length:
  "int (length days) \<le> count \<Longrightarrow>
   int (length (getNextWorkingDays_loop count b days day)) = count"
proof (induction count b days day rule: getNextWorkingDays_loop.induct)
  case (1 count b days day)
  show ?case
  proof (cases "int (length days) < count")
    case True
    show ?thesis
    proof (cases "\<not> b \<or> (getDay day \<noteq> 0 \<and> getDay day \<noteq> 6)")
      case push: True
      from True have "int (length (days @ [day])) \<le> count" by simp
      from "1.IH"(1)[OF True push this] show ?thesis
        by (simp only: getNextWorkingDays_loop_push [OF True push])
    next
      case skip: False
      from "1.IH"(2)[OF True skip "1.prems"] show ?thesis
        by (simp only: getNextWorkingDays_loop_skip [OF True skip])
    qed
  next
    case False
    with "1.prems" show ?thesis by (simp add: getNextWorkingDays_loop_done)
  qed
qed

lemma getNextWorkingDays_loop_sorted:
  "sorted_wrt (<) days \<Longrightarrow> \<forall>d\<in>set days. d < day \<Longrightarrow>
   sorted_wrt (<) (getNextWorkingDays_loop count b days day)"
proof (induction count b days day rule: getNextWorkingDays_loop.induct)
  case (1 count b days day)
  show ?case
  proof (cases "int (length days) < count")
    case True
    show ?thesis
    proof (cases "\<not> b \<or> (getDay day \<noteq> 0 \<and> getDay day \<noteq> 6)")
      case push: True
      have ordered: "sorted_wrt (<) (days @ [day])"
        using "1.prems" by (simp add: sorted_wrt_append)
      have below: "\<forall>d\<in>set (days @ [day]). d < day + 1"
        using "1.prems" by auto
      from "1.IH"(1)[OF True push ordered below] show ?thesis
        by (simp only: getNextWorkingDays_loop_push [OF True push])
    next
      case skip: False
      have below: "\<forall>d\<in>set days. d < day + 1"
        using "1.prems" by auto
      from "1.IH"(2)[OF True skip "1.prems"(1) below] show ?thesis
        by (simp only: getNextWorkingDays_loop_skip [OF True skip])
    qed
  next
    case False
    with "1.prems" show ?thesis by (simp add: getNextWorkingDays_loop_done)
  qed
qed

lemma getNextWorkingDays_loop_members:
  "x \<in> set (getNextWorkingDays_loop count b days day) \<Longrightarrow>
   x \<in> set days \<or> (day \<le> x \<and> (b \<longrightarrow> getDay x \<noteq> 0 \<and> getDay x \<noteq> 6))"
proof (induction count b days day rule: getNextWorkingDays_loop.induct)
  case (1 count b days day)
  show ?case
  proof (cases "int (length days) < count")
    case True
    show ?thesis
    proof (cases "\<not> b \<or> (getDay day \<noteq> 0 \<and> getDay day \<noteq> 6)")
      case push: True
      from "1.prems"
      have "x \<in> set (getNextWorkingDays_loop count b (days @ [day]) (day + 1))"
        by (simp only: getNextWorkingDays_loop_push [OF True push])
      from "1.IH"(1)[OF True push this] push show ?thesis by auto
    next
      case skip: False
      from "1.prems"
      have "x \<in> set (getNextWorkingDays_loop count b days (day + 1))"
        by (simp only: getNextWorkingDays_loop_skip [OF True skip])
      from "1.IH"(2)[OF True skip this] show ?thesis by auto
    qed
  next
    case False
    with "1.prems" show ?thesis by (simp add: getNextWorkingDays_loop_done)
  qed
qed

lemma getNextWorkingDays_loop_keeps:
  "\<exists>rest. getNextWorkingDays_loop count b days day = days @ rest"
proof (induction count b days day rule: getNextWorkingDays_loop.induct)
  case (1 count b days day)
  show ?case
  proof (cases "int (length days) < count")
    case True
    show ?thesis
    proof (cases "\<not> b \<or> (getDay day \<noteq> 0 \<and> getDay day \<noteq> 6)")
      case push: True
      from "1.IH"(1)[OF True push] show ?thesis
        by (auto simp only: getNextWorkingDays_loop_push [OF True push] append_assoc)
    next
      case skip: False
      from "1.IH"(2)[OF True skip] show ?thesis
        by (simp only: getNextWorkingDays_loop_skip [OF True skip])
    qed
  next
    case False
    then show ?thesis by (simp add: getNextWorkingDays_loop_done)
  qed
qed

text \<open>
  C6. For every \<open>count\<close> from 1 to 30 and both values of \<open>businessDaysOnly\<close>, with
  \<open>today\<close> fixed, \<open>getNextWorkingDays\<close> returns exactly \<open>count\<close> dates, strictly
  increasing, none before today, and none on a Saturday or Sunday when
  \<open>businessDaysOnly\<close> is set. Today itself is the first date whenever it is eligible.
  The function is total: the loop was shown to terminate where it is defined.
\<close>

theorem getNextWorkingDays_count_order_weekdays:
  assumes "1 \<le> count" and "count \<le> 30"
  shows "int (length (getNextWorkingDays today count b)) = count
    \<and> sorted_wrt (<) (getNextWorkingDays today count b)
    \<and> (\<forall>d \<in> set (getNextWorkingDays today count b). today \<le> d)
    \<and> (b \<longrightarrow> (\<forall>d \<in> set (getNextWorkingDays today count b). getDay d \<noteq> 0 \<and> getDay d \<noteq> 6))
    \<and> (\<not> b \<or> (getDay today \<noteq> 0 \<and> getDay today \<noteq> 6) \<longrightarrow>
          hd (getNextWorkingDays today count b) = today)"
proof -
  have len: "int (length (getNextWorkingDays today count b)) = count"
    unfolding getNextWorkingDays_def using assms(1)
    by (intro getNextWorkingDays_loop_length) simp
  have srt: "sorted_wrt (<) (getNextWorkingDays today count b)"
    unfolding getNextWorkingDays_def by (intro getNextWorkingDays_loop_sorted) simp_all
  have mem: "\<forall>d \<in> set (getNextWorkingDays today count b).
      today \<le> d \<and> (b \<longrightarrow> getDay d \<noteq> 0 \<and> getDay d \<noteq> 6)"
    unfolding getNextWorkingDays_def
    using getNextWorkingDays_loop_members [of _ count b "[]" today] by auto
  have first: "hd (getNextWorkingDays today count b) = today"
    if eligible: "\<not> b \<or> (getDay today \<noteq> 0 \<and> getDay today \<noteq> 6)"
  proof -
    from assms(1) have lt: "int (length ([]::Date list)) < count" by simp
    obtain rest where
      "getNextWorkingDays_loop count b ([] @ [today]) (today + 1) = ([] @ [today]) @ rest"
      using getNextWorkingDays_loop_keeps by blast
    then show ?thesis
      unfolding getNextWorkingDays_def
      by (simp only: getNextWorkingDays_loop_push [OF lt eligible]) simp
  qed
  from len srt mem first show ?thesis by blast
qed

theorem getNextWorkingDays_count_order_weekdays_witness:
  "(1::int) \<le> 5 \<and> (5::int) \<le> 30
   \<and> getNextWorkingDays 2 5 True = [4, 5, 6, 7, 8]
   \<and> map getDay (getNextWorkingDays 2 5 True) = [1, 2, 3, 4, 5]
   \<and> int (length (getNextWorkingDays 2 5 True)) = 5
   \<and> sorted_wrt (<) (getNextWorkingDays 2 5 True)
   \<and> list_all (\<lambda>d. 2 \<le> d \<and> getDay d \<noteq> 0 \<and> getDay d \<noteq> 6) (getNextWorkingDays 2 5 True)"
proof -
  have v: "getNextWorkingDays 2 5 True = [4, 5, 6, 7, 8]"
    by (simp add: getNextWorkingDays_def getNextWorkingDays_loop.simps getDay_def)
  from getNextWorkingDays_count_order_weekdays [of 5 2 True] v show ?thesis
    by (simp add: getDay_def)
qed

section \<open>The structured-attribute strategy\<close>

lemma calendarEval_append:
  "calendarEval (xs @ ys) = calendarEval xs @ calendarEval ys"
  by (simp add: calendarEval_def)

lemma calendarSlots_append:
  "calendarSlots e loc (xs @ ys) = calendarSlots e loc xs @ calendarSlots e loc ys"
  by (simp add: calendarSlots_def)

lemma calendarSlots_single:
  assumes "isAvailable el" and "trim (textContent el) \<noteq> []"
  shows "calendarSlots e loc (calendarEval [el]) =
     (if truthy (dataDate el) \<or> truthy (dataTime el)
      then [\<lparr>location = name loc,
             date = orElse (dataDate el) (clockTodayISO e),
             time = orElse (dataTime el) (trim (textContent el)),
             url = loc_url loc\<rparr>]
      else [])"
  using assms
  by (auto simp: calendarSlots_def calendarEval_def truthy_def orElse_def split: option.splits)

text \<open>
  C5, the claim as stated, fails: a bookable calendar cell with text and with no
  \<open>data-date\<close> and no \<open>data-time\<close> yields no slot at all, where the claim promises one with
  the text as time and today's date.
\<close>

theorem calendar_cell_without_attributes_counterexample:
  "isAvailable plainCell \<and> trim (textContent plainCell) = ''9:00 AM''
   \<and> dataDate plainCell = None \<and> dataTime plainCell = None
   \<and> extractSlots sampleEnv (hd (dmvLocations initialStorage)) [20094]
        \<lparr>availableEls = Some [], calendarEls = Some [plainCell]\<rparr> = []"
  by (simp add: plainCell_def isAvailable_def trim_def isSpace_def extractSlots_def
      textSlots_def calendarSlots_def calendarEval_def orEmpty_def)

text \<open>
  C5 as amended. Take a calendar-cell, booking-slot or appointment-time element that is
  not disabled, not unavailable and has non-empty trimmed text, anywhere in the query
  result. If at least one of its \<open>data-date\<close> and \<open>data-time\<close> attributes is present and
  non-empty, it yields exactly one slot: the date is \<open>data-date\<close>, or today's date when
  that is missing or empty; the time is \<open>data-time\<close>, or the trimmed text when that is
  missing or empty. If neither attribute is present and non-empty, it yields no slot.
\<close>

theorem calendar_cell_slot:
  assumes "isAvailable el" and "trim (textContent el) \<noteq> []"
  shows "calendarSlots e loc (calendarEval (before @ [el] @ after)) =
     calendarSlots e loc (calendarEval before)
     @ (if truthy (dataDate el) \<or> truthy (dataTime el)
        then [\<lparr>location = name loc,
               date = orElse (dataDate el) (clockTodayISO e),
               time = orElse (dataTime el) (trim (textContent el)),
               url = loc_url loc\<rparr>]
        else [])
     @ calendarSlots e loc (calendarEval after)"
  by (simp only: calendarEval_append calendarSlots_append calendarSlots_single [OF assms])

theorem calendar_cell_slot_witness:
  "isAvailable datedCell \<and> trim (textContent datedCell) \<noteq> []
   \<and> calendarSlots sampleEnv (hd (dmvLocations initialStorage))
        (calendarEval ([plainCell] @ [datedCell] @ [])) =
       [\<lparr>location = ''Henderson DMV (All Services)'', date = ''2025-01-07'', time = ''9:00 AM'',
         url = ''https://hendersondmv.waitwell.us/book/1026''\<rparr>]"
proof -
  have avail: "isAvailable datedCell"
    by (simp add: datedCell_def isAvailable_def)
  have trimmed: "trim (textContent datedCell) = ''9:00 AM''"
    by (simp add: datedCell_def trim_def isSpace_def)
  then have nonempty: "trim (textContent datedCell) \<noteq> []"
    by simp
  have plain: "calendarSlots sampleEnv (hd (dmvLocations initialStorage)) (calendarEval [plainCell]) = []"
    by (simp add: plainCell_def isAvailable_def trim_def isSpace_def calendarSlots_def
        calendarEval_def)
  have empty: "calendarSlots sampleEnv (hd (dmvLocations initialStorage)) (calendarEval []) = []"
    by (simp add: calendarSlots_def calendarEval_def)
  have attrs: "truthy (dataDate datedCell)"
      "orElse (dataDate datedCell) (clockTodayISO sampleEnv) = ''2025-01-07''"
      "orElse (dataTime datedCell) ''9:00 AM'' = ''9:00 AM''"
    by (simp_all add: datedCell_def truthy_def orElse_def)
  have loc: "name (hd (dmvLocations initialStorage)) = ''Henderson DMV (All Services)''"
      "loc_url (hd (dmvLocations initialStorage)) = ''https://hendersondmv.waitwell.us/book/1026''"
    by (simp_all add: initialStorage_def)
  have "calendarSlots sampleEnv (hd (dmvLocations initialStorage))
        (calendarEval ([plainCell] @ [datedCell] @ [])) =
       [\<lparr>location = ''Henderson DMV (All Services)'', date = ''2025-01-07'', time = ''9:00 AM'',
         url = ''https://hendersondmv.waitwell.us/book/1026''\<rparr>]"
    unfolding calendar_cell_slot [OF avail nonempty, of sampleEnv
        "hd (dmvLocations initialStorage)" "[plainCell]" "[]"]
    by (simp add: plain empty attrs trimmed loc)
  with avail nonempty show ?thesis by blast
qed

section \<open>The SMS channel without a configuration\<close>

text \<open>
  C10. When the SMS configuration is absent, disabled or lacks a credential,
  \<open>SmsService.sendAppointmentNotification\<close> resolves for every slot list and sends nothing
  (the state is the one before, with only the call recorded), while \<open>sendTestSms\<close> in the
  same state rejects with "SMS configuration incomplete or disabled".
\<close>

theorem sms_unconfigured_skip_versus_throw:
  assumes "smsUnconfigured (emailConfig (storage w))"
  shows "smsService_sendAppointmentNotification e slots w
           = (Inr (), w\<lparr>attempts := attempts w @ [SmsSend slots]\<rparr>)
    \<and> sentSms (snd (smsService_sendAppointmentNotification e slots w)) = sentSms w
    \<and> storage (snd (smsService_sendAppointmentNotification e slots w)) = storage w
    \<and> sendTestSms e w = (Inl (ErrorObj ''SMS configuration incomplete or disabled''), w)"
  using assms
  by (simp add: smsService_sendAppointmentNotification_def sendTestSms_def getEmailConfig_def)

theorem sms_unconfigured_skip_versus_throw_witness:
  "smsUnconfigured (emailConfig (storage runningWorld))
   \<and> smsService_sendAppointmentNotification sampleEnv [] runningWorld
        = (Inr (), runningWorld\<lparr>attempts := [SmsSend []]\<rparr>)
   \<and> sendTestSms sampleEnv runningWorld
        = (Inl (ErrorObj ''SMS configuration incomplete or disabled''), runningWorld)"
proof -
  have unconfigured: "smsUnconfigured (emailConfig (storage runningWorld))"
    by (simp add: smsUnconfigured_def runningWorld_def initialWorld_def sampleConfig_def)
  have "attempts runningWorld = []"
    by (simp add: runningWorld_def initialWorld_def)
  with sms_unconfigured_skip_versus_throw [OF unconfigured, of sampleEnv "[]"] unconfigured
  show ?thesis by simp
qed

section \<open>Starting and stopping\<close>

text \<open>
  C9. \<open>startMonitoring\<close> on a running service returns at once and without an error; the
  whole state is the one before: the same task reference and the same cron tasks (no second
  periodic task), the same session start time, the same activity log.
\<close>

theorem startMonitoring_running_noop:
  assumes "isRunning (monitoringService w)"
  shows "startMonitoring e w = (Inr (), w)"
  using assms by (simp add: startMonitoring_def)

theorem startMonitoring_running_noop_witness:
  "isRunning (monitoringService runningWorld)
   \<and> startMonitoring sampleEnv runningWorld = (Inr (), runningWorld)
   \<and> cronTasks (snd (startMonitoring sampleEnv runningWorld))
        = [\<lparr>cronExpression = ''*/5 * * * *'', started = True\<rparr>]
   \<and> startTime (monitoringService (snd (startMonitoring sampleEnv runningWorld))) = Some 0
   \<and> activityLogs (storage (snd (startMonitoring sampleEnv runningWorld))) = []"
proof -
  have running: "isRunning (monitoringService runningWorld)"
    by (simp add: runningWorld_def)
  have same: "startMonitoring sampleEnv runningWorld = (Inr (), runningWorld)"
    by (rule startMonitoring_running_noop [OF running])
  have "cronTasks runningWorld = [\<lparr>cronExpression = ''*/5 * * * *'', started = True\<rparr>]"
    "startTime (monitoringService runningWorld) = Some 0"
    "activityLogs (storage runningWorld) = []"
    by (simp_all add: runningWorld_def initialWorld_def initialStorage_def)
  with running same show ?thesis by simp
qed

text \<open>
  C4, the claim as stated, fails: \<open>stopMonitoring\<close> writes its \<open>monitoring_stopped\<close> entry
  whatever the state. On the process as it starts (stopped, empty log) two calls leave two
  entries.
\<close>

theorem stopMonitoring_twice_counterexample:
  "task (monitoringService initialWorld) = None
   \<and> isRunning (monitoringService initialWorld) = False
   \<and> activityLogs (storage initialWorld) = []
   \<and> activityLogs (storage (snd (stopMonitoring initialWorld))) = [stoppedLog]
   \<and> activityLogs (storage (snd (stopMonitoring (snd (stopMonitoring initialWorld)))))
        = [stoppedLog, stoppedLog]"
  by (simp add: stopMonitoring_def logActivity_def createActivityLog_def initialWorld_def
      initialStorage_def)

text \<open>
  C4 as amended. \<open>stopMonitoring\<close> on a stopped service (no task, not running) does not
  throw and leaves the service and the cron tasks as they were, but it appends one
  \<open>monitoring_stopped\<close> entry to the activity log on every call.
\<close>

theorem stopMonitoring_stopped:
  assumes "task (monitoringService w) = None" and "\<not> isRunning (monitoringService w)"
  shows "stopMonitoring w = (Inr (), logActivity stoppedLog w)
    \<and> monitoringService (snd (stopMonitoring w)) = monitoringService w
    \<and> cronTasks (snd (stopMonitoring w)) = cronTasks w
    \<and> activityLogs (storage (snd (stopMonitoring w))) = activityLogs (storage w) @ [stoppedLog]"
proof -
  from assms(2) have "(monitoringService w)\<lparr>isRunning := False\<rparr> = monitoringService w"
    by simp
  with assms(1) have result: "stopMonitoring w = (Inr (), logActivity stoppedLog w)"
    by (simp add: stopMonitoring_def)
  then show ?thesis
    by (simp add: logActivity_def createActivityLog_def)
qed

theorem stopMonitoring_stopped_witness:
  "task (monitoringService initialWorld) = None
   \<and> isRunning (monitoringService initialWorld) = False
   \<and> fst (stopMonitoring initialWorld) = Inr ()
   \<and> monitoringService (snd (stopMonitoring initialWorld))
        = \<lparr>task = None, isRunning = False, startTime = None\<rparr>
   \<and> cronTasks (snd (stopMonitoring initialWorld)) = []
   \<and> map log_type (activityLogs (storage (snd (stopMonitoring initialWorld))))
        = [''monitoring_stopped'']"
proof -
  have stopped: "task (monitoringService initialWorld) = None"
      "\<not> isRunning (monitoringService initialWorld)"
    by (simp_all add: initialWorld_def)
  have before: "monitoringService initialWorld = \<lparr>task = None, isRunning = False, startTime = None\<rparr>"
      "cronTasks initialWorld = []" "activityLogs (storage initialWorld) = []"
    by (simp_all add: initialWorld_def initialStorage_def)
  from stopMonitoring_stopped [OF stopped] stopped before show ?thesis
    by (simp add: stoppedLog_def logActivity_def createActivityLog_def)
qed

section \<open>What the two channels change\<close>

lemma emailService_attempts:
  "attempts (snd (emailService_sendAppointmentNotification e slots w))
     = attempts w @ [EmailSend slots]"
  by (simp add: emailService_sendAppointmentNotification_def Let_def split: option.splits)

lemma emailService_activityLogs:
  "activityLogs (storage (snd (emailService_sendAppointmentNotification e slots w)))
     = activityLogs (storage w)"
  by (simp add: emailService_sendAppointmentNotification_def Let_def upsertMonitoringStats_def
      split: option.splits)


lemma smsService_attempts:
  "attempts (snd (smsService_sendAppointmentNotification e slots w))
     = attempts w @ [SmsSend slots]"
  by (simp add: smsService_sendAppointmentNotification_def Let_def split: option.splits)

lemma smsService_activityLogs:
  "activityLogs (storage (snd (smsService_sendAppointmentNotification e slots w)))
     = activityLogs (storage w)"
  by (simp add: smsService_sendAppointmentNotification_def Let_def upsertMonitoringStats_def
      split: option.splits)

section \<open>The dispatcher\<close>

lemma dispatcher_attempts_both:
  "fst (notificationService_sendAppointmentNotification e slots w) = Inr ()
   \<and> attempts (snd (notificationService_sendAppointmentNotification e slots w))
       = attempts w @ [EmailSend slots, SmsSend slots]"
proof -
  obtain r1 w1 where
    email: "emailService_sendAppointmentNotification e slots w = (r1, w1)"
    by (cases "emailService_sendAppointmentNotification e slots w")
  obtain r2 w2 where
    sms: "smsService_sendAppointmentNotification e slots w1 = (r2, w2)"
    by (cases "smsService_sendAppointmentNotification e slots w1")
  from emailService_attempts [of e slots w] email
  have "attempts w1 = attempts w @ [EmailSend slots]"
    by simp
  with smsService_attempts [of e slots w1] sms
  have "attempts w2 = attempts w @ [EmailSend slots, SmsSend slots]"
    by simp
  then show ?thesis
    by (simp add: notificationService_sendAppointmentNotification_def email sms Let_def
        logActivity_def)
qed

text \<open>
  C8 holds in its first two parts, for every slot list and whatever the two sends do
  (\<open>dispatcher_attempts_both\<close>): both sends are attempted, email first, and the dispatcher
  itself never throws. Its third part fails on the code. On the process as it starts no
  email and no SMS configuration is saved: the email send throws, the SMS send returns
  on its guard without sending, and the dispatcher, which takes a send that returned for
  a send that succeeded, appends a \<open>notification_sent\<close> entry that names SMS. Nothing was
  sent on either channel.
\<close>

theorem dispatcher_names_skipped_sms:
  "emailConfig (storage initialWorld) = None
   \<and> fst (emailService_sendAppointmentNotification sampleEnv [sampleSlot] initialWorld)
       = Inl (ErrorObj ''Email configuration not found'')
   \<and> fst (notificationService_sendAppointmentNotification sampleEnv [sampleSlot] initialWorld)
       = Inr ()
   \<and> sentMail (snd (notificationService_sendAppointmentNotification sampleEnv [sampleSlot]
          initialWorld)) = []
   \<and> sentSms (snd (notificationService_sendAppointmentNotification sampleEnv [sampleSlot]
          initialWorld)) = []
   \<and> activityLogs (storage (snd (notificationService_sendAppointmentNotification sampleEnv
          [sampleSlot] initialWorld)))
       = [\<lparr>log_type = ''notification_sent'',
           title = ''Notifications Sent'',
           description = Some ''Sent SMS notifications for 1 appointment'',
           action = Some ''Notified via: SMS'',
           metadata = Some (MetaNotification [sampleSlot] [''SMS''] 600000)\<rparr>]"
proof -
  have email: "emailService_sendAppointmentNotification sampleEnv [sampleSlot] initialWorld
     = (Inl (ErrorObj ''Email configuration not found''),
        initialWorld\<lparr>attempts := [EmailSend [sampleSlot]]\<rparr>)"
    by (simp add: emailService_sendAppointmentNotification_def getEmailConfig_def
        initialWorld_def initialStorage_def)
  have sms: "smsService_sendAppointmentNotification sampleEnv [sampleSlot]
        (initialWorld\<lparr>attempts := [EmailSend [sampleSlot]]\<rparr>)
     = (Inr (), initialWorld\<lparr>attempts := [EmailSend [sampleSlot], SmsSend [sampleSlot]]\<rparr>)"
    by (simp add: smsService_sendAppointmentNotification_def getEmailConfig_def
        smsUnconfigured_def initialWorld_def initialStorage_def)
  have entry: "notificationLog sampleEnv [sampleSlot] [''SMS''] =
       \<lparr>log_type = ''notification_sent'',
        title = ''Notifications Sent'',
        description = Some ''Sent SMS notifications for 1 appointment'',
        action = Some ''Notified via: SMS'',
        metadata = Some (MetaNotification [sampleSlot] [''SMS''] 600000)\<rparr>"
    by (simp add: notificationLog_def show_nat.simps plural_def sampleEnv_def)
  have run: "notificationService_sendAppointmentNotification sampleEnv [sampleSlot] initialWorld
     = (Inr (), logActivity (notificationLog sampleEnv [sampleSlot] [''SMS''])
                  (initialWorld\<lparr>attempts := [EmailSend [sampleSlot], SmsSend [sampleSlot]]\<rparr>))"
    by (simp add: notificationService_sendAppointmentNotification_def email sms)
  have before: "emailConfig (storage initialWorld) = None" "sentMail initialWorld = []"
      "sentSms initialWorld = []" "activityLogs (storage initialWorld) = []"
    by (simp_all add: initialWorld_def initialStorage_def)
  from before show ?thesis
    by (simp add: run email entry logActivity_def createActivityLog_def)
qed

section \<open>The checker's loop over the locations\<close>

lemma checkLocations_result:
  "checkLocations e targetDates locs availableSlots w =
     (availableSlots @ concat (map (locationSlots e targetDates) locs),
      w\<lparr>storage := (storage w)
           \<lparr>activityLogs := activityLogs (storage w) @ concat (map (locationErrors e) locs)\<rparr>\<rparr>)"
proof (induction locs arbitrary: availableSlots w)
  case Nil
  show ?case by simp
next
  case (Cons loc locs)
  show ?case
  proof (cases "goto e loc")
    case (Inl err)
    then show ?thesis
      by (simp add: Cons.IH checkLocation_def locationSlots_def locationErrors_def
          logActivity_def createActivityLog_def)
  next
    case (Inr pg)
    then show ?thesis
      by (simp add: Cons.IH checkLocation_def locationSlots_def locationErrors_def)
  qed
qed

lemma initialize_ready:
  assumes "browser w \<or> launch e = None"
  shows "initialize e w = (Inr (), w\<lparr>browser := True\<rparr>)"
  using assms by (cases "browser w") (auto simp: initialize_def)

lemma checkAppointments_through_loop:
  assumes "browser w \<or> launch e = None"
    and "monitoringSettings (storage w) = Some settings"
    and "newPage e = None"
  shows "checkAppointments e w =
     ((case closePage e of
         Some err \<Rightarrow> Inl err
       | None \<Rightarrow>
           Inr (concat (map (locationSlots e
                  (getNextWorkingDays (clockToday e) (daysAhead settings)
                     (businessDaysOnly settings)))
                (filter enabled (dmvLocations (storage w)))))),
      w\<lparr>browser := True,
        storage := (storage w)
           \<lparr>activityLogs := activityLogs (storage w)
              @ concat (map (locationErrors e) (filter enabled (dmvLocations (storage w))))\<rparr>\<rparr>)"
  unfolding checkAppointments_def
  by (simp add: initialize_ready [OF assms(1)] assms(2,3) getDmvLocations_def
      getMonitoringSettings_def checkLocations_result split: option.splits)

lemma checkAppointments_returns:
  assumes "browser w \<or> launch e = None"
    and "monitoringSettings (storage w) = Some settings"
    and "newPage e = None" and "closePage e = None"
  shows "checkAppointments e w =
     (Inr (concat (map (locationSlots e
              (getNextWorkingDays (clockToday e) (daysAhead settings) (businessDaysOnly settings)))
            (filter enabled (dmvLocations (storage w))))),
      w\<lparr>browser := True,
        storage := (storage w)
           \<lparr>activityLogs := activityLogs (storage w)
              @ concat (map (locationErrors e) (filter enabled (dmvLocations (storage w))))\<rparr>\<rparr>)"
  by (simp add: checkAppointments_through_loop [OF assms(1-3)] assms(4))

lemma entries_naming:
  "filter (namesLocation A) (concat (map (locationErrors e) locs)) =
     concat (map (locationErrors e)
       (filter (\<lambda>loc. name loc = name A \<and> loc_url loc = loc_url A)
          (filter (\<lambda>loc. loc_id loc = loc_id A) locs)))"
proof (induction locs)
  case Nil
  show ?case by simp
next
  case (Cons loc locs)
  have "filter (namesLocation A) (locationErrors e loc) =
      (if loc_id loc = loc_id A \<and> name loc = name A \<and> loc_url loc = loc_url A
       then locationErrors e loc else [])"
    by (cases "goto e loc") (auto simp: locationErrors_def namesLocation_def locationErrorLog_def)
  with Cons.IH show ?case by simp
qed

lemma slots_of_member:
  assumes "B \<in> set locs"
  shows "\<exists>before after. concat (map f locs) = before @ f B @ after"
proof -
  from assms obtain xs ys where "locs = xs @ B # ys"
    by (auto simp: in_set_conv_decomp)
  then have "concat (map f locs) = concat (map f xs) @ f B @ concat (map f ys)"
    by simp
  then show ?thesis by blast
qed

text \<open>
  C7, the claim as stated, fails: the isolation covers the fetch of a location, not the
  checker's own steps around the loop. On the process as it starts, with a page whose
  \<open>close\<close> rejects in the \<open>finally\<close> block, the first location's fetch throws and the
  second location's page yields a slot, yet \<open>checkAppointments\<close> rejects and returns no
  slots.
\<close>

theorem checker_close_rejects_counterexample:
  "dmvLocations initialStorage ! 0 \<in> set (dmvLocations (storage initialWorld))
   \<and> enabled (dmvLocations initialStorage ! 0)
   \<and> dmvLocations initialStorage ! 1 \<in> set (dmvLocations (storage initialWorld))
   \<and> enabled (dmvLocations initialStorage ! 1)
   \<and> goto closeFails (dmvLocations initialStorage ! 0)
       = Inl (ErrorObj ''Navigation timeout of 30000 ms exceeded'')
   \<and> goto closeFails (dmvLocations initialStorage ! 1) = Inr datedPage
   \<and> extractSlots closeFails (dmvLocations initialStorage ! 1)
         (getNextWorkingDays 20094 5 True) datedPage
       = [\<lparr>location = ''Henderson DMV (DL)'', date = ''2025-01-07'', time = ''9:00 AM'',
           url = ''https://hendersondmv.waitwell.us/book/994''\<rparr>]
   \<and> fst (checkAppointments closeFails initialWorld)
       = Inl (ErrorObj ''Protocol error: Target closed'')"
proof -
  let ?settings = "\<lparr>checkInterval = 300, daysAhead = 5, businessDaysOnly = True, isEnabled = False\<rparr>"
  have up: "browser initialWorld \<or> launch closeFails = None"
    and opened: "newPage closeFails = None"
    and closing: "closePage closeFails = Some (ErrorObj ''Protocol error: Target closed'')"
    by (simp_all add: closeFails_def sampleEnv_def)
  have settings: "monitoringSettings (storage initialWorld) = Some ?settings"
    by (simp add: initialWorld_def initialStorage_def)
  have rejected: "fst (checkAppointments closeFails initialWorld)
      = Inl (ErrorObj ''Protocol error: Target closed'')"
    by (simp add: checkAppointments_through_loop [OF up settings opened] closing)
  have cell: "calendarEval [datedCell]
      = [\<lparr>cs_text = ''9:00 AM'', cs_date = ''2025-01-07'', cs_time = ''''\<rparr>]"
    by (simp add: calendarEval_def datedCell_def isAvailable_def trim_def isSpace_def)
  have found: "extractSlots closeFails (dmvLocations initialStorage ! 1) dates datedPage
       = [\<lparr>location = ''Henderson DMV (DL)'', date = ''2025-01-07'', time = ''9:00 AM'',
           url = ''https://hendersondmv.waitwell.us/book/994''\<rparr>]" for dates
    by (simp add: extractSlots_def datedPage_def orEmpty_def textSlots_def cell calendarSlots_def
        initialStorage_def)
  have places: "dmvLocations initialStorage ! 0 \<in> set (dmvLocations (storage initialWorld))"
      "enabled (dmvLocations initialStorage ! 0)"
      "dmvLocations initialStorage ! 1 \<in> set (dmvLocations (storage initialWorld))"
      "enabled (dmvLocations initialStorage ! 1)"
    by (simp_all add: initialWorld_def initialStorage_def)
  have fetches: "goto closeFails (dmvLocations initialStorage ! 0)
       = Inl (ErrorObj ''Navigation timeout of 30000 ms exceeded'')"
      "goto closeFails (dmvLocations initialStorage ! 1) = Inr datedPage"
    by (simp_all add: closeFails_def sampleEnv_def initialStorage_def)
  from places fetches found rejected show ?thesis
    by (intro conjI)
qed

text \<open>
  C7 as amended. Let the checker reach its loop: the browser is up or launches, the
  settings are present and the page opens. If \<open>A\<close> and \<open>B\<close> are enabled locations, the
  fetch of \<open>A\<close> throws and that of \<open>B\<close> yields a page, then the loop goes past \<open>A\<close>: the
  entries appended to the activity log are one \<open>error\<close> entry for each enabled location
  whose fetch threw, in the order of the loop, and nothing else; the entry written for
  \<open>A\<close> names \<open>A\<close>, and it is the only entry naming \<open>A\<close> when \<open>A\<close> is the only enabled
  location with its id. This holds whether or not the page then closes. If
  \<open>page.close()\<close> in the \<open>finally\<close> block resolves, \<open>checkAppointments\<close> returns the slots
  of every enabled location whose fetch succeeded, in order, those extracted from \<open>B\<close>'s
  page among them; if it rejects, \<open>checkAppointments\<close> rejects with that error.
\<close>

theorem checkAppointments_isolates_failed_location:
  assumes "browser w \<or> launch e = None"
    and "monitoringSettings (storage w) = Some settings"
    and "newPage e = None"
    and "A \<in> set (dmvLocations (storage w))" and "enabled A"
    and "B \<in> set (dmvLocations (storage w))" and "enabled B"
    and "goto e A = Inl err" and "goto e B = Inr pg"
  shows "logsSince w (snd (checkAppointments e w))
        = concat (map (locationErrors e) (filter enabled (dmvLocations (storage w))))
    \<and> (\<exists>before after. logsSince w (snd (checkAppointments e w))
          = before @ [locationErrorLog A err] @ after)
    \<and> namesLocation A (locationErrorLog A err)
    \<and> (filter (\<lambda>loc. loc_id loc = loc_id A) (filter enabled (dmvLocations (storage w))) = [A]
         \<longrightarrow> filter (namesLocation A) (logsSince w (snd (checkAppointments e w)))
               = [locationErrorLog A err])
    \<and> (closePage e = None \<longrightarrow>
          fst (checkAppointments e w) =
            Inr (concat (map (locationSlots e
                   (getNextWorkingDays (clockToday e) (daysAhead settings)
                      (businessDaysOnly settings)))
                 (filter enabled (dmvLocations (storage w)))))
          \<and> (\<exists>before after.
                fst (checkAppointments e w) =
                  Inr (before
                       @ extractSlots e B
                           (getNextWorkingDays (clockToday e) (daysAhead settings)
                              (businessDaysOnly settings)) pg
                       @ after)))
    \<and> (\<forall>failure. closePage e = Some failure \<longrightarrow> fst (checkAppointments e w) = Inl failure)"
proof -
  let ?enabled = "filter enabled (dmvLocations (storage w))"
  let ?dates = "getNextWorkingDays (clockToday e) (daysAhead settings) (businessDaysOnly settings)"
  note run = checkAppointments_through_loop [OF assms(1-3)]
  have appended: "logsSince w (snd (checkAppointments e w)) = concat (map (locationErrors e) ?enabled)"
    by (simp add: run logsSince_def)
  from assms(4,5) have a: "A \<in> set ?enabled" by simp
  have own: "locationErrors e A = [locationErrorLog A err]"
    by (simp add: locationErrors_def assms(8))
  from slots_of_member [OF a, of "locationErrors e"]
  obtain xs ys where "concat (map (locationErrors e) ?enabled) = xs @ locationErrors e A @ ys"
    by blast
  then have "logsSince w (snd (checkAppointments e w)) = xs @ [locationErrorLog A err] @ ys"
    by (simp only: appended own)
  then have place: "\<exists>before after. logsSince w (snd (checkAppointments e w))
      = before @ [locationErrorLog A err] @ after"
    by blast
  have names: "namesLocation A (locationErrorLog A err)"
    by (simp add: namesLocation_def locationErrorLog_def)
  have only: "filter (namesLocation A) (logsSince w (snd (checkAppointments e w)))
      = [locationErrorLog A err]"
    if single: "filter (\<lambda>loc. loc_id loc = loc_id A) ?enabled = [A]"
  proof -
    have "filter (namesLocation A) (concat (map (locationErrors e) ?enabled)) =
        concat (map (locationErrors e)
          (filter (\<lambda>loc. name loc = name A \<and> loc_url loc = loc_url A) [A]))"
      by (simp only: entries_naming single)
    then show ?thesis
      by (simp add: appended own)
  qed
  have returned: "fst (checkAppointments e w) = Inr (concat (map (locationSlots e ?dates) ?enabled))
      \<and> (\<exists>before after.
            fst (checkAppointments e w) = Inr (before @ extractSlots e B ?dates pg @ after))"
    if closed: "closePage e = None"
  proof -
    have result: "fst (checkAppointments e w) = Inr (concat (map (locationSlots e ?dates) ?enabled))"
      by (simp add: run closed)
    from assms(6,7) have b: "B \<in> set ?enabled" by simp
    from slots_of_member [OF b, of "locationSlots e ?dates"]
    obtain before after where
      "concat (map (locationSlots e ?dates) ?enabled)
         = before @ locationSlots e ?dates B @ after"
      by blast
    moreover have "locationSlots e ?dates B = extractSlots e B ?dates pg"
      by (simp add: locationSlots_def assms(9))
    ultimately
    have "fst (checkAppointments e w) = Inr (before @ extractSlots e B ?dates pg @ after)"
      by (simp only: result)
    with result show ?thesis by blast
  qed
  have rejected: "fst (checkAppointments e w) = Inl failure" if "closePage e = Some failure"
    for failure
    by (simp add: run that)
  from appended place names only returned rejected show ?thesis
    by blast
qed

subsection \<open>The sample day\<close>

lemma sample_page:
  "extractSlots sampleEnv loc dates datedPage
     = [\<lparr>location = name loc, date = ''2025-01-07'', time = ''9:00 AM'', url = loc_url loc\<rparr>]"
proof -
  have "calendarEval [datedCell]
      = [\<lparr>cs_text = ''9:00 AM'', cs_date = ''2025-01-07'', cs_time = ''''\<rparr>]"
    by (simp add: calendarEval_def datedCell_def isAvailable_def trim_def isSpace_def)
  then show ?thesis
    by (simp add: extractSlots_def datedPage_def orEmpty_def textSlots_def calendarSlots_def)
qed

lemma sample_fetch:
  "goto sampleEnv loc =
     (if loc_id loc = ''1'' then Inl (ErrorObj ''Navigation timeout of 30000 ms exceeded'')
      else Inr datedPage)"
  by (simp add: sampleEnv_def)

lemma sample_check:
  assumes "dmvLocations (storage w) = dmvLocations initialStorage"
    and "monitoringSettings (storage w) = Some settings"
  shows "checkAppointments sampleEnv w =
     (Inr sampleFound,
      w\<lparr>browser := True,
        storage := (storage w)
           \<lparr>activityLogs := activityLogs (storage w)
              @ [locationErrorLog (hd (dmvLocations initialStorage))
                   (ErrorObj ''Navigation timeout of 30000 ms exceeded'')]\<rparr>\<rparr>)"
proof -
  have up: "browser w \<or> launch sampleEnv = None"
    and pages: "newPage sampleEnv = None" "closePage sampleEnv = None"
    by (simp_all add: sampleEnv_def)
  have slots: "concat (map (locationSlots sampleEnv dates)
      (filter enabled (dmvLocations initialStorage))) = sampleFound" for dates
    by (simp add: initialStorage_def locationSlots_def sample_page sample_fetch sampleFound_def)
  have errors: "concat (map (locationErrors sampleEnv) (filter enabled (dmvLocations initialStorage)))
      = [locationErrorLog (hd (dmvLocations initialStorage))
           (ErrorObj ''Navigation timeout of 30000 ms exceeded'')]"
    by (simp add: initialStorage_def locationErrors_def sample_fetch)
  show ?thesis
    by (simp only: checkAppointments_returns [OF up assms(2) pages] assms(1) slots errors)
qed

text \<open>
  The witness is the process as it starts, on the sample day: the first Henderson page
  times out, the other three enabled locations each show one dated cell.
\<close>

theorem checkAppointments_isolates_failed_location_witness:
  "(browser initialWorld \<or> launch sampleEnv = None)
   \<and> monitoringSettings (storage initialWorld)
       = Some \<lparr>checkInterval = 300, daysAhead = 5, businessDaysOnly = True, isEnabled = False\<rparr>
   \<and> newPage sampleEnv = None \<and> closePage sampleEnv = None
   \<and> dmvLocations initialStorage ! 0 \<in> set (dmvLocations (storage initialWorld))
   \<and> enabled (dmvLocations initialStorage ! 0)
   \<and> dmvLocations initialStorage ! 1 \<in> set (dmvLocations (storage initialWorld))
   \<and> enabled (dmvLocations initialStorage ! 1)
   \<and> goto sampleEnv (dmvLocations initialStorage ! 0)
       = Inl (ErrorObj ''Navigation timeout of 30000 ms exceeded'')
   \<and> goto sampleEnv (dmvLocations initialStorage ! 1) = Inr datedPage
   \<and> filter (\<lambda>loc. loc_id loc = loc_id (dmvLocations initialStorage ! 0))
         (filter enabled (dmvLocations (storage initialWorld)))
       = [dmvLocations initialStorage ! 0]
   \<and> logsSince initialWorld (snd (checkAppointments sampleEnv initialWorld))
       = [locationErrorLog (dmvLocations initialStorage ! 0)
            (ErrorObj ''Navigation timeout of 30000 ms exceeded'')]
   \<and> filter (namesLocation (dmvLocations initialStorage ! 0))
         (logsSince initialWorld (snd (checkAppointments sampleEnv initialWorld)))
       = [locationErrorLog (dmvLocations initialStorage ! 0)
            (ErrorObj ''Navigation timeout of 30000 ms exceeded'')]
   \<and> fst (checkAppointments sampleEnv initialWorld) = Inr sampleFound"
proof -
  let ?A = "dmvLocations initialStorage ! 0" and ?B = "dmvLocations initialStorage ! 1"
  let ?settings = "\<lparr>checkInterval = 300, daysAhead = 5, businessDaysOnly = True, isEnabled = False\<rparr>"
  have up: "browser initialWorld \<or> launch sampleEnv = None"
    by (simp add: sampleEnv_def)
  have settings: "monitoringSettings (storage initialWorld) = Some ?settings"
    by (simp add: initialWorld_def initialStorage_def)
  have pages: "newPage sampleEnv = None" "closePage sampleEnv = None"
    by (simp_all add: sampleEnv_def)
  have a: "?A \<in> set (dmvLocations (storage initialWorld))" "enabled ?A"
    by (simp_all add: initialWorld_def initialStorage_def)
  have b: "?B \<in> set (dmvLocations (storage initialWorld))" "enabled ?B"
    by (simp_all add: initialWorld_def initialStorage_def)
  have fails: "goto sampleEnv ?A = Inl (ErrorObj ''Navigation timeout of 30000 ms exceeded'')"
    by (simp add: sampleEnv_def initialStorage_def)
  have loads: "goto sampleEnv ?B = Inr datedPage"
    by (simp add: sampleEnv_def initialStorage_def)
  have single: "filter (\<lambda>loc. loc_id loc = loc_id ?A)
      (filter enabled (dmvLocations (storage initialWorld))) = [?A]"
    by (simp add: initialWorld_def initialStorage_def)
  note isolated = checkAppointments_isolates_failed_location
    [OF up settings pages(1) a b fails loads]
  have slots: "concat (map (locationSlots sampleEnv dates)
        (filter enabled (dmvLocations (storage initialWorld)))) = sampleFound" for dates
    by (simp add: initialWorld_def initialStorage_def locationSlots_def sample_page sample_fetch
        sampleFound_def)
  have errors: "concat (map (locationErrors sampleEnv)
        (filter enabled (dmvLocations (storage initialWorld))))
      = [locationErrorLog ?A (ErrorObj ''Navigation timeout of 30000 ms exceeded'')]"
    by (simp add: initialWorld_def initialStorage_def locationErrors_def sample_fetch)
  from isolated have "logsSince initialWorld (snd (checkAppointments sampleEnv initialWorld))
       = [locationErrorLog ?A (ErrorObj ''Navigation timeout of 30000 ms exceeded'')]"
    by (simp only: errors)
  moreover from isolated single
  have "filter (namesLocation ?A)
         (logsSince initialWorld (snd (checkAppointments sampleEnv initialWorld)))
       = [locationErrorLog ?A (ErrorObj ''Navigation timeout of 30000 ms exceeded'')]"
    by blast
  moreover from isolated pages(2)
  have "fst (checkAppointments sampleEnv initialWorld) = Inr sampleFound"
    by (simp only: slots)
  ultimately show ?thesis
    using up settings pages a b fails loads single by (intro conjI)
qed

section \<open>One check cycle\<close>

lemma checkAppointments_keeps:
  "monitoringStats (storage (snd (checkAppointments e w))) = monitoringStats (storage w)
   \<and> emailConfig (storage (snd (checkAppointments e w))) = emailConfig (storage w)
   \<and> monitoringService (snd (checkAppointments e w)) = monitoringService w
   \<and> attempts (snd (checkAppointments e w)) = attempts w"
  by (simp add: checkAppointments_def initialize_def checkLocations_result Let_def
      split: option.splits)

lemma updateStats_keeps:
  "activityLogs (storage (updateStats e slots w)) = activityLogs (storage w)
   \<and> attempts (updateStats e slots w) = attempts w"
  by (simp add: updateStats_def upsertMonitoringStats_def split: option.splits)


lemma logActivity_keeps:
  "totalChecksOf (logActivity entry w) = totalChecksOf w
   \<and> monitoringStats (storage (logActivity entry w)) = monitoringStats (storage w)
   \<and> attempts (logActivity entry w) = attempts w
   \<and> activityLogs (storage (logActivity entry w)) = activityLogs (storage w) @ [entry]"
  by (simp add: logActivity_def createActivityLog_def totalChecksOf_def)

lemma performCheck_resume_found:
  assumes "slots \<noteq> []"
    and "emailService_sendAppointmentNotification e slots (updateStats e slots w1) = (r, w2)"
  shows "performCheck_resume e (Inr slots) w1 =
     (Inr (), logActivity (case r of Inl err \<Rightarrow> checkFailedLog err
                                    | Inr u \<Rightarrow> appointmentFoundLog slots) w2)"
  using assms by (cases r) (simp_all add: performCheck_resume_def Let_def)


text \<open>
  C2, the claim as stated, fails: when the checker throws, the \<open>error\<close> entry is written
  but the statistics are not touched. On the process as it starts, with a browser that
  does not launch, \<open>totalChecks\<close> is 0 before the cycle and 0 after it.
\<close>

theorem performCheck_launch_failure_counterexample:
  "fst (checkAppointments launchFails initialWorld)
     = Inl (ErrorObj ''Failed to launch the browser process'')
   \<and> totalChecksOf initialWorld = Some 0
   \<and> totalChecksOf (snd (performCheck launchFails initialWorld)) = Some 0
   \<and> map log_type (activityLogs (storage (snd (performCheck launchFails initialWorld))))
       = [''error'']"
proof -
  have thrown: "checkAppointments launchFails initialWorld
      = (Inl (ErrorObj ''Failed to launch the browser process''), initialWorld)"
    by (simp add: checkAppointments_def initialize_def launchFails_def sampleEnv_def
        initialWorld_def)
  have before: "totalChecksOf initialWorld = Some 0" "activityLogs (storage initialWorld) = []"
    by (simp_all add: totalChecksOf_def initialWorld_def initialStorage_def)
  from thrown before show ?thesis
    by (simp add: performCheck_def performCheck_resume_def logActivity_keeps checkFailedLog_def)
qed

text \<open>
  C2 as amended. In every check cycle in which the checker call throws, the scheduler
  appends exactly one activity-log entry, of kind \<open>error\<close> ("Check Failed", with the
  error's message), after whatever the checker itself had logged, and returns normally;
  the statistics are left as they were: \<open>totalChecks\<close> is not incremented.
\<close>

theorem performCheck_checker_throws:
  assumes "checkAppointments e w = (Inl err, w1)"
  shows "performCheck e w = (Inr (), logActivity (checkFailedLog err) w1)
    \<and> logsSince w1 (snd (performCheck e w)) = [checkFailedLog err]
    \<and> log_type (checkFailedLog err) = ''error''
    \<and> monitoringStats (storage (snd (performCheck e w))) = monitoringStats (storage w)
    \<and> totalChecksOf (snd (performCheck e w)) = totalChecksOf w"
proof -
  have run: "performCheck e w = (Inr (), logActivity (checkFailedLog err) w1)"
    by (simp add: performCheck_def assms performCheck_resume_def)
  from checkAppointments_keeps [of e w] assms
  have same: "monitoringStats (storage w1) = monitoringStats (storage w)"
    by simp
  then have "totalChecksOf w1 = totalChecksOf w"
    by (simp add: totalChecksOf_def)
  with run same show ?thesis
    by (simp add: logActivity_keeps logsSince_def checkFailedLog_def)
qed

theorem performCheck_checker_throws_witness:
  "checkAppointments launchFails initialWorld
     = (Inl (ErrorObj ''Failed to launch the browser process''), initialWorld)
   \<and> performCheck launchFails initialWorld
     = (Inr (),
        logActivity (checkFailedLog (ErrorObj ''Failed to launch the browser process''))
          initialWorld)
   \<and> logsSince initialWorld (snd (performCheck launchFails initialWorld))
     = [checkFailedLog (ErrorObj ''Failed to launch the browser process'')]
   \<and> totalChecksOf (snd (performCheck launchFails initialWorld)) = Some 0"
proof -
  have thrown: "checkAppointments launchFails initialWorld
      = (Inl (ErrorObj ''Failed to launch the browser process''), initialWorld)"
    by (simp add: checkAppointments_def initialize_def launchFails_def sampleEnv_def
        initialWorld_def)
  have before: "totalChecksOf initialWorld = Some 0"
    by (simp add: totalChecksOf_def initialWorld_def initialStorage_def)
  from performCheck_checker_throws [OF thrown] thrown before show ?thesis
    by (simp add: logActivity_keeps logsSince_def)
qed

lemma emailService_unconfigured:
  assumes "emailConfig (storage w) = None"
  shows "emailService_sendAppointmentNotification e slots w =
     (Inl (ErrorObj ''Email configuration not found''),
      w\<lparr>attempts := attempts w @ [EmailSend slots]\<rparr>)"
  using assms by (simp add: emailService_sendAppointmentNotification_def getEmailConfig_def)

lemma emailService_accepted:
  assumes "emailConfig (storage w) = Some cfg"
    and "sendMail e cfg (mailOptions cfg slots) = None"
  shows "fst (emailService_sendAppointmentNotification e slots w) = Inr ()"
  using assms
  by (simp add: emailService_sendAppointmentNotification_def getEmailConfig_def Let_def)

lemma updateStats_emailConfig:
  "emailConfig (storage (updateStats e slots w)) = emailConfig (storage w)"
  by (simp add: updateStats_def upsertMonitoringStats_def split: option.splits)

text \<open>
  C3, the claim as stated, fails twice over. \<open>performCheck\<close> calls the email service
  itself and never the dispatcher, so the SMS channel is not attempted; and the
  \<open>appointment_found\<close> entry is written only after the email send has returned. On the
  process as it starts (no email configuration saved) the checker finds three slots, the
  only attempt is the email one, and the log holds no \<open>appointment_found\<close> entry: the
  cycle is logged as an \<open>error\<close>, after the \<open>error\<close> entry of the location that timed out.
\<close>

theorem performCheck_found_no_sms_no_entry_counterexample:
  "fst (checkAppointments sampleEnv initialWorld) = Inr sampleFound
   \<and> length sampleFound = 3
   \<and> attempts (snd (performCheck sampleEnv initialWorld)) = [EmailSend sampleFound]
   \<and> ofType ''appointment_found''
        (activityLogs (storage (snd (performCheck sampleEnv initialWorld)))) = []
   \<and> map log_type (activityLogs (storage (snd (performCheck sampleEnv initialWorld))))
       = [''error'', ''error'']"
proof -
  let ?w1 = "initialWorld\<lparr>browser := True,
        storage := (storage initialWorld)
           \<lparr>activityLogs := activityLogs (storage initialWorld)
              @ [locationErrorLog (hd (dmvLocations initialStorage))
                   (ErrorObj ''Navigation timeout of 30000 ms exceeded'')]\<rparr>\<rparr>"
  let ?w2 = "updateStats sampleEnv sampleFound ?w1"
  have settings: "monitoringSettings (storage initialWorld)
      = Some \<lparr>checkInterval = 300, daysAhead = 5, businessDaysOnly = True, isEnabled = False\<rparr>"
    and locations: "dmvLocations (storage initialWorld) = dmvLocations initialStorage"
    by (simp_all add: initialWorld_def initialStorage_def)
  have checked: "checkAppointments sampleEnv initialWorld = (Inr sampleFound, ?w1)"
    by (rule sample_check [OF locations settings])
  have found: "sampleFound \<noteq> []" "length sampleFound = 3"
    by (simp_all add: sampleFound_def)
  have "emailConfig (storage ?w2) = None"
    by (simp add: updateStats_emailConfig) (simp add: initialWorld_def initialStorage_def)
  then have sent: "emailService_sendAppointmentNotification sampleEnv sampleFound ?w2 =
     (Inl (ErrorObj ''Email configuration not found''),
      ?w2\<lparr>attempts := attempts ?w2 @ [EmailSend sampleFound]\<rparr>)"
    by (rule emailService_unconfigured)
  have cycle: "performCheck sampleEnv initialWorld =
     (Inr (), logActivity (checkFailedLog (ErrorObj ''Email configuration not found''))
                (?w2\<lparr>attempts := attempts ?w2 @ [EmailSend sampleFound]\<rparr>))"
    by (simp add: performCheck_def checked performCheck_resume_found [OF found(1) sent])
  have before: "attempts ?w2 = []"
      "activityLogs (storage ?w2)
        = [locationErrorLog (hd (dmvLocations initialStorage))
             (ErrorObj ''Navigation timeout of 30000 ms exceeded'')]"
    by (simp_all add: updateStats_keeps) (simp_all add: initialWorld_def initialStorage_def)
  from checked found(2) before show ?thesis
    by (simp add: cycle logActivity_keeps ofType_def checkFailedLog_def locationErrorLog_def)
qed

text \<open>
  C3 as amended. In every check cycle in which the checker returns a non-empty slot
  list, the scheduler attempts the email channel, once, with those slots, and attempts
  nothing else: the SMS channel and the dispatcher are not invoked. Provided the email
  send does not throw, it then appends exactly one \<open>appointment_found\<close> entry that
  lists the slots and gives "Email notification sent" as the action taken.
\<close>

theorem performCheck_found_email_only:
  assumes "checkAppointments e w = (Inr slots, w1)" and "slots \<noteq> []"
  shows "attempts (snd (performCheck e w)) = attempts w @ [EmailSend slots]
    \<and> (fst (emailService_sendAppointmentNotification e slots (updateStats e slots w1)) = Inr ()
         \<longrightarrow> logsSince w1 (snd (performCheck e w)) = [appointmentFoundLog slots])
    \<and> log_type (appointmentFoundLog slots) = ''appointment_found''
    \<and> action (appointmentFoundLog slots) = Some ''Email notification sent''"
proof -
  obtain r w2 where
    sent: "emailService_sendAppointmentNotification e slots (updateStats e slots w1) = (r, w2)"
    by (cases "emailService_sendAppointmentNotification e slots (updateStats e slots w1)")
  have cycle: "performCheck e w =
     (Inr (), logActivity (case r of Inl err \<Rightarrow> checkFailedLog err
                                    | Inr u \<Rightarrow> appointmentFoundLog slots) w2)"
    by (simp add: performCheck_def assms(1) performCheck_resume_found [OF assms(2) sent])
  from checkAppointments_keeps [of e w] assms(1) have "attempts w1 = attempts w"
    by simp
  with emailService_attempts [of e slots "updateStats e slots w1"] sent
  have tried: "attempts w2 = attempts w @ [EmailSend slots]"
    by (simp add: updateStats_keeps)
  from emailService_activityLogs [of e slots "updateStats e slots w1"] sent
  have logged: "activityLogs (storage w2) = activityLogs (storage w1)"
    by (simp add: updateStats_keeps)
  from tried have first: "attempts (snd (performCheck e w)) = attempts w @ [EmailSend slots]"
    by (simp add: cycle logActivity_keeps)
  have second: "logsSince w1 (snd (performCheck e w)) = [appointmentFoundLog slots]"
    if "fst (emailService_sendAppointmentNotification e slots (updateStats e slots w1)) = Inr ()"
  proof -
    from that sent have "r = Inr ()" by simp
    with logged show ?thesis
      by (simp add: cycle logActivity_keeps logsSince_def)
  qed
  from first second show ?thesis
    by (simp add: appointmentFoundLog_def)
qed

text \<open>
  The witness is the running process, with an email configuration saved and a server
  that accepts the mail.
\<close>

theorem performCheck_found_email_only_witness:
  "checkAppointments sampleEnv runningWorld
     = (Inr sampleFound, snd (checkAppointments sampleEnv runningWorld))
   \<and> sampleFound \<noteq> []
   \<and> fst (emailService_sendAppointmentNotification sampleEnv sampleFound
        (updateStats sampleEnv sampleFound (snd (checkAppointments sampleEnv runningWorld))))
     = Inr ()
   \<and> attempts (snd (performCheck sampleEnv runningWorld)) = [EmailSend sampleFound]
   \<and> logsSince (snd (checkAppointments sampleEnv runningWorld))
        (snd (performCheck sampleEnv runningWorld))
     = [appointmentFoundLog sampleFound]"
proof -
  let ?w1 = "snd (checkAppointments sampleEnv runningWorld)"
  have settings: "monitoringSettings (storage runningWorld)
      = Some \<lparr>checkInterval = 300, daysAhead = 5, businessDaysOnly = True, isEnabled = True\<rparr>"
    and locations: "dmvLocations (storage runningWorld) = dmvLocations initialStorage"
    by (simp_all add: runningWorld_def initialWorld_def initialStorage_def)
  have checked: "checkAppointments sampleEnv runningWorld = (Inr sampleFound, ?w1)"
    by (simp add: sample_check [OF locations settings])
  have found: "sampleFound \<noteq> []"
    by (simp add: sampleFound_def)
  from checkAppointments_keeps [of sampleEnv runningWorld]
  have "emailConfig (storage (updateStats sampleEnv sampleFound ?w1)) = Some sampleConfig"
    by (simp add: updateStats_emailConfig) (simp add: runningWorld_def initialWorld_def)
  moreover have "sendMail sampleEnv cfg m = None" for cfg m
    by (simp add: sampleEnv_def)
  ultimately
  have sent: "fst (emailService_sendAppointmentNotification sampleEnv sampleFound
        (updateStats sampleEnv sampleFound ?w1)) = Inr ()"
    by (rule emailService_accepted)
  have start: "attempts runningWorld = []"
    by (simp add: runningWorld_def initialWorld_def)
  from performCheck_found_email_only [OF checked found] sent start
  have "attempts (snd (performCheck sampleEnv runningWorld)) = [EmailSend sampleFound]"
    and "logsSince ?w1 (snd (performCheck sampleEnv runningWorld)) = [appointmentFoundLog sampleFound]"
    by simp_all
  with checked found sent show ?thesis
    by (intro conjI)
qed

section \<open>Cycles in flight\<close>

subsection \<open>A cycle on its own\<close>














subsection \<open>Cycles side by side\<close>

lemma run_append: "run e s (evs @ evs') = run e (run e s evs) evs'"
  by (simp add: run_def)














end
